theory Spec2Isabelle
  imports Complex_Main
begin

section \<open>Python values, exceptions and the log\<close>

text \<open>
  The tools of \<^verbatim>\<open>main.py\<close> pass dynamically typed values between the caller and the
  SmartAPI SDK. A value is one of the JSON-like shapes that cross that boundary; a
  dictionary keeps its items in insertion order, with string keys. Floats are the finite
  ones only.
\<close>

datatype pyval =
    PNone
  | PBool bool
  | PInt int
  | PFloat real
  | PStr string
  | PList "pyval list"
  | PDict "(string \<times> pyval) list"

text \<open>
  An exception is an instance of a subclass of \<^verbatim>\<open>Exception\<close>, which is what every
  \<^verbatim>\<open>except Exception as e\<close> of the module catches: its class name and the text
  \<^verbatim>\<open>str(e)\<close> that an f-string inserts.
\<close>

datatype exn = Exn (exn_class: string) (exn_str: string)

text \<open>
  \<^verbatim>\<open>logger.error(x)\<close> and \<^verbatim>\<open>logger.exception(x)\<close> of logzero, in the order issued. The
  argument is either a formatted string or, for \<^verbatim>\<open>logger.error(data)\<close>, the response
  object itself.
\<close>

datatype log_arg = Text string | Obj pyval

datatype log_entry = Logger_error log_arg | Logger_exception log_arg

section \<open>The external SDK\<close>

text \<open>
  Every call that leaves the module: the constructor \<^verbatim>\<open>SmartConnect(api_key)\<close> on a newly
  allocated instance, \<^verbatim>\<open>pyotp.TOTP(token).now()\<close>, and the methods invoked on a
  SmartConnect instance. An instance is identified by its object number.
\<close>

datatype sdk_call =
    SmartConnect_init nat pyval
  | TOTP_now pyval
  | GenerateSession nat pyval pyval pyval
  | Holding nat
  | GetCandleData nat pyval
  | PlaceOrderFullResponse nat pyval
  | CancelOrder nat pyval pyval
  | OrderBook nat

text \<open>
  The SDK, the broker behind it and the clock are a parameter: a transition function on
  an arbitrary world \<open>'w\<close> that answers a call with a value or raises.
\<close>

type_synonym 'w sdk = "'w \<Rightarrow> sdk_call \<Rightarrow> (exn + pyval) \<times> 'w"

text \<open>
  The state threaded through a run: the external world, the calls made to the SDK so far
  (oldest first), the log so far (oldest first) and the number of the next object to be
  allocated.
\<close>

record 'w state =
  world :: 'w
  calls :: "sdk_call list"
  logs :: "log_entry list"
  next_obj :: nat

type_synonym ('w, 'a) prog = "'w state \<Rightarrow> (exn + 'a) \<times> 'w state"

definition return :: "'a \<Rightarrow> ('w, 'a) prog" where
  "return a s = (Inr a, s)"

definition raise :: "exn \<Rightarrow> ('w, 'a) prog" where
  "raise e s = (Inl e, s)"

text \<open>Sequencing: an exception of the first statement skips the rest.\<close>

definition seq :: "('w, 'a) prog \<Rightarrow> ('a \<Rightarrow> ('w, 'b) prog) \<Rightarrow> ('w, 'b) prog" where
  "seq m f s = (case m s of (Inl e, s') \<Rightarrow> (Inl e, s') | (Inr a, s') \<Rightarrow> f a s')"

text \<open>\<^verbatim>\<open>try: m  except Exception as e: h e\<close>\<close>

definition try_except :: "('w, 'a) prog \<Rightarrow> (exn \<Rightarrow> ('w, 'a) prog) \<Rightarrow> ('w, 'a) prog" where
  "try_except m h s = (case m s of (Inl e, s') \<Rightarrow> h e s' | (Inr a, s') \<Rightarrow> (Inr a, s'))"

definition call :: "'w sdk \<Rightarrow> sdk_call \<Rightarrow> ('w, pyval) prog" where
  "call sdk c s =
     (case sdk (world s) c of
        (r, w') \<Rightarrow> (r, s\<lparr>world := w', calls := calls s @ [c]\<rparr>))"

definition new_object :: "('w, nat) prog" where
  "new_object s = (Inr (next_obj s), s\<lparr>next_obj := Suc (next_obj s)\<rparr>)"

definition logger_error :: "log_arg \<Rightarrow> ('w, unit) prog" where
  "logger_error x s = (Inr (), s\<lparr>logs := logs s @ [Logger_error x]\<rparr>)"

definition logger_exception :: "log_arg \<Rightarrow> ('w, unit) prog" where
  "logger_exception x s = (Inr (), s\<lparr>logs := logs s @ [Logger_exception x]\<rparr>)"

section \<open>Built-in operations on values\<close>

definition type_name :: "pyval \<Rightarrow> string" where
  "type_name v =
     (case v of
        PNone \<Rightarrow> ''NoneType''
      | PBool _ \<Rightarrow> ''bool''
      | PInt _ \<Rightarrow> ''int''
      | PFloat _ \<Rightarrow> ''float''
      | PStr _ \<Rightarrow> ''str''
      | PList _ \<Rightarrow> ''list''
      | PDict _ \<Rightarrow> ''dict'')"

definition quoted :: "string \<Rightarrow> string" where
  "quoted k = CHR 0x27 # k @ [CHR 0x27]"

text \<open>
  \<^verbatim>\<open>v[k]\<close> with a string key \<open>k\<close>: a dictionary answers or raises KeyError, a string or a
  list rejects the index type, anything else is not subscriptable (the texts of CPython
  3.11 and later).
\<close>

definition py_getitem :: "pyval \<Rightarrow> string \<Rightarrow> exn + pyval" where
  "py_getitem v k =
     (case v of
        PDict kvs \<Rightarrow>
          (case map_of kvs k of
             None \<Rightarrow> Inl (Exn ''KeyError'' (quoted k))
           | Some x \<Rightarrow> Inr x)
      | PStr _ \<Rightarrow> Inl (Exn ''TypeError'' (''string indices must be integers, not '' @ quoted ''str''))
      | PList _ \<Rightarrow> Inl (Exn ''TypeError'' ''list indices must be integers or slices, not str'')
      | _ \<Rightarrow> Inl (Exn ''TypeError'' (quoted (type_name v) @ '' object is not subscriptable'')))"

text \<open>\<^verbatim>\<open>v == False\<close>: \<^verbatim>\<open>False\<close> equals the numbers that are zero and nothing else.\<close>

definition py_eq_False :: "pyval \<Rightarrow> bool" where
  "py_eq_False v =
     (case v of
        PBool b \<Rightarrow> \<not> b
      | PInt i \<Rightarrow> i = 0
      | PFloat r \<Rightarrow> r = 0
      | _ \<Rightarrow> False)"

text \<open>A parameter with a default value: \<open>None\<close> is the argument left out by the caller.\<close>

definition default_arg :: "pyval \<Rightarrow> pyval option \<Rightarrow> pyval" where
  "default_arg d a = (case a of None \<Rightarrow> d | Some v \<Rightarrow> v)"

section \<open>Module initialisation\<close>

record config =
  api_key :: pyval
  username :: pyval
  pwd :: pyval
  token :: pyval
  correlation_id :: pyval



section \<open>The tools\<close>

text \<open>
  The body of the \<^verbatim>\<open>try\<close> block of \<^verbatim>\<open>get_smart_api_session\<close> (lines 32 to 37), on the
  instance \<open>smartApi\<close> that line 30 constructed. The exception of line 36 is raised inside
  the block, so the handler of lines 38 to 40 sees it as well.
\<close>

definition authenticate :: "'w sdk \<Rightarrow> config \<Rightarrow> nat \<Rightarrow> ('w, nat) prog" where
  "authenticate sdk cfg smartApi =
     seq (call sdk (TOTP_now (token cfg))) (\<lambda>totp.
     seq (call sdk (GenerateSession smartApi (username cfg) (pwd cfg) totp)) (\<lambda>data.
     seq (\<lambda>s. (py_getitem data ''status'', s)) (\<lambda>status.
       if py_eq_False status then
         seq (logger_error (Obj data)) (\<lambda>_.
           raise (Exn ''Exception'' ''Failed to authenticate with SmartAPI''))
       else return smartApi)))"

definition get_smart_api_session :: "'w sdk \<Rightarrow> config \<Rightarrow> ('w, nat) prog" where
  "get_smart_api_session sdk cfg =
     seq new_object (\<lambda>smartApi.
     seq (call sdk (SmartConnect_init smartApi (api_key cfg))) (\<lambda>_.
       try_except (authenticate sdk cfg smartApi) (\<lambda>e.
         seq (logger_error (Text (''Authentication failed: '' @ exn_str e))) (\<lambda>_.
           raise e))))"

definition get_proftfolio :: "'w sdk \<Rightarrow> config \<Rightarrow> ('w, pyval) prog" where
  "get_proftfolio sdk cfg =
     try_except
       (seq (get_smart_api_session sdk cfg) (\<lambda>smartApi.
        seq (call sdk (Holding smartApi)) (\<lambda>allholding.
          return allholding)))
       (\<lambda>e. seq (logger_exception (Text (''Failed to get portfolio: '' @ exn_str e))) (\<lambda>_.
          raise e))"

definition get_candle_data ::
  "'w sdk \<Rightarrow> config \<Rightarrow> pyval \<Rightarrow> pyval \<Rightarrow> pyval option \<Rightarrow> pyval option \<Rightarrow> ('w, pyval) prog" where
  "get_candle_data sdk cfg start_time end_time symboltoken_arg interval_arg =
     (let symboltoken = default_arg (PStr ''3045'') symboltoken_arg;
          interval = default_arg (PStr ''ONE_MINUTE'') interval_arg
      in try_except
           (seq (get_smart_api_session sdk cfg) (\<lambda>smartApi.
              let queryParams = PDict
                    [(''exchange'', PStr ''NSE''),
                     (''symboltoken'', symboltoken),
                     (''interval'', interval),
                     (''fromdate'', start_time),
                     (''todate'', end_time)]
              in seq (call sdk (GetCandleData smartApi queryParams)) (\<lambda>response.
                   return response)))
           (\<lambda>e. seq (logger_exception (Text (''Historic Api failed: '' @ exn_str e))) (\<lambda>_.
              return PNone)))"

definition place_order ::
  "'w sdk \<Rightarrow> config \<Rightarrow> pyval \<Rightarrow> pyval \<Rightarrow> pyval \<Rightarrow> pyval \<Rightarrow>
     pyval option \<Rightarrow> pyval option \<Rightarrow> pyval option \<Rightarrow> ('w, pyval) prog" where
  "place_order sdk cfg symbol symboltoken transactiontype quantity
       ordertype_arg producttype_arg price_arg =
     (let ordertype = default_arg (PStr ''LIMIT'') ordertype_arg;
          producttype = default_arg (PStr ''DELIVERY'') producttype_arg;
          price = default_arg (PInt 0) price_arg
      in try_except
           (let orderParams = PDict
                  [(''variety'', PStr ''NORMAL''),
                   (''tradingsymbol'', symbol),
                   (''symboltoken'', symboltoken),
                   (''transactiontype'', transactiontype),
                   (''exchange'', PStr ''NSE''),
                   (''ordertype'', ordertype),
                   (''producttype'', producttype),
                   (''duration'', PStr ''DAY''),
                   (''price'', price),
                   (''squareoff'', PStr ''0''),
                   (''stoploss'', PStr ''0''),
                   (''quantity'', quantity)]
            in seq (get_smart_api_session sdk cfg) (\<lambda>smartApi.
               seq (call sdk (PlaceOrderFullResponse smartApi orderParams)) (\<lambda>response.
                 return response)))
           (\<lambda>e. seq (logger_exception (Text (''Order placement failed: '' @ exn_str e))) (\<lambda>_.
              return PNone)))"

definition cancel_order :: "'w sdk \<Rightarrow> config \<Rightarrow> pyval \<Rightarrow> pyval option \<Rightarrow> ('w, pyval) prog" where
  "cancel_order sdk cfg order_id variety_arg =
     (let variety = default_arg (PStr ''NORMAL'') variety_arg
      in try_except
           (seq (get_smart_api_session sdk cfg) (\<lambda>smartApi.
            seq (call sdk (CancelOrder smartApi order_id variety)) (\<lambda>response.
              return response)))
           (\<lambda>e. seq (logger_exception (Text (''Failed to cancel the order: '' @ exn_str e))) (\<lambda>_.
              return PNone)))"

definition get_order_book :: "'w sdk \<Rightarrow> config \<Rightarrow> ('w, pyval) prog" where
  "get_order_book sdk cfg =
     try_except
       (seq (get_smart_api_session sdk cfg) (\<lambda>smartApi.
        seq (call sdk (OrderBook smartApi)) (\<lambda>orderbook.
          return orderbook)))
       (\<lambda>e. seq (logger_exception (Text (''Fetching order book failed: '' @ exn_str e))) (\<lambda>_.
          return PNone))"

text \<open>The resource \<^verbatim>\<open>greeting://{name}\<close>: the f-string \<^verbatim>\<open>f"Namastae, {name}!"\<close> on a string.\<close>

definition get_greeting :: "string \<Rightarrow> string" where
  "get_greeting name = ''Namastae, '' @ name @ ''!''"

section \<open>Tool invocations\<close>

text \<open>
  The five functions registered with \<^verbatim>\<open>@mcp.tool()\<close>, as the server invokes them: by
  name, with the arguments of the caller.
\<close>

datatype invocation =
    Get_proftfolio
  | Get_candle_data pyval pyval "pyval option" "pyval option"
  | Place_order pyval pyval pyval pyval "pyval option" "pyval option" "pyval option"
  | Cancel_order pyval "pyval option"
  | Get_order_book

definition invoke :: "'w sdk \<Rightarrow> config \<Rightarrow> invocation \<Rightarrow> ('w, pyval) prog" where
  "invoke sdk cfg tc =
     (case tc of
        Get_proftfolio \<Rightarrow> get_proftfolio sdk cfg
      | Get_candle_data start_time end_time symboltoken interval \<Rightarrow>
          get_candle_data sdk cfg start_time end_time symboltoken interval
      | Place_order symbol symboltoken transactiontype quantity ordertype producttype price \<Rightarrow>
          place_order sdk cfg symbol symboltoken transactiontype quantity ordertype producttype price
      | Cancel_order order_id variety \<Rightarrow> cancel_order sdk cfg order_id variety
      | Get_order_book \<Rightarrow> get_order_book sdk cfg)"

text \<open>The SmartConnect instance that a call constructs or is invoked on, if any.\<close>

fun instance_of :: "sdk_call \<Rightarrow> nat option" where
  "instance_of (SmartConnect_init h _) = Some h"
| "instance_of (TOTP_now _) = None"
| "instance_of (GenerateSession h _ _ _) = Some h"
| "instance_of (Holding h) = Some h"
| "instance_of (GetCandleData h _) = Some h"
| "instance_of (PlaceOrderFullResponse h _) = Some h"
| "instance_of (CancelOrder h _ _) = Some h"
| "instance_of (OrderBook h) = Some h"

text \<open>
  The SDK method that a tool forwards to once it holds a session: \<^verbatim>\<open>holding\<close> for
  portfolio lookup, \<^verbatim>\<open>getCandleData\<close> for candle retrieval, \<^verbatim>\<open>placeOrderFullResponse\<close> for
  order placement, \<^verbatim>\<open>cancelOrder\<close> for cancellation, \<^verbatim>\<open>orderBook\<close> for the order book.
\<close>

definition data_method :: "invocation \<Rightarrow> sdk_call \<Rightarrow> bool" where
  "data_method tc c =
     (case tc of
        Get_proftfolio \<Rightarrow> (case c of Holding _ \<Rightarrow> True | _ \<Rightarrow> False)
      | Get_candle_data _ _ _ _ \<Rightarrow> (case c of GetCandleData _ _ \<Rightarrow> True | _ \<Rightarrow> False)
      | Place_order _ _ _ _ _ _ _ \<Rightarrow> (case c of PlaceOrderFullResponse _ _ \<Rightarrow> True | _ \<Rightarrow> False)
      | Cancel_order _ _ \<Rightarrow> (case c of CancelOrder _ _ _ \<Rightarrow> True | _ \<Rightarrow> False)
      | Get_order_book \<Rightarrow> (case c of OrderBook _ \<Rightarrow> True | _ \<Rightarrow> False))"

text \<open>
  Two states that differ at most in what earlier runs left behind in the trace and in
  the log.
\<close>

definition same_world :: "'w state \<Rightarrow> 'w state \<Rightarrow> bool" where
  "same_world s t = (world s = world t \<and> next_obj s = next_obj t)"

text \<open>
  A program is history-free when, from two such states, it returns the same result,
  leaves the same world, and appends the same calls and the same log entries.
\<close>

definition history_free :: "('w, 'a) prog \<Rightarrow> bool" where
  "history_free m =
     (\<forall>s t. same_world s t \<longrightarrow>
        fst (m s) = fst (m t) \<and> same_world (snd (m s)) (snd (m t)) \<and>
        (\<exists>cs ls. calls (snd (m s)) = calls s @ cs \<and> calls (snd (m t)) = calls t @ cs \<and>
                 logs (snd (m s)) = logs s @ ls \<and> logs (snd (m t)) = logs t @ ls))"

section \<open>Mocked SDKs\<close>

text \<open>
  A mocked SDK for concrete runs. Its world is the scenario it plays and never changes:
  everything succeeds, the one-time passcode cannot be computed, the login call raises,
  the login is answered with a failure flag, or every data call raises. A missing TOTP
  seed (\<open>PNone\<close>) makes the passcode computation raise in every scenario.
\<close>

datatype scenario = All_ok | Totp_raises | Login_raises | Login_rejected | Data_raises

definition mock_sdk :: "scenario sdk" where
  "mock_sdk w c =
     (case c of
        SmartConnect_init _ _ \<Rightarrow> (Inr PNone, w)
      | TOTP_now seed \<Rightarrow>
          (if w = Totp_raises \<or> seed = PNone
           then Inl (Exn ''TypeError'' ''object of type NoneType has no len()'')
           else Inr (PStr ''492039''), w)
      | GenerateSession _ _ _ _ \<Rightarrow>
          (if w = Login_raises then Inl (Exn ''ConnectionError'' ''connection refused'')
           else if w = Login_rejected
           then Inr (PDict [(''status'', PBool False), (''message'', PStr ''Invalid totp''),
                            (''errorcode'', PStr ''AB1050''), (''data'', PNone)])
           else Inr (PDict [(''status'', PBool True), (''message'', PStr ''SUCCESS''),
                            (''data'', PDict [(''clientcode'', PStr ''A100'')])]), w)
      | _ \<Rightarrow>
          (if w = Data_raises then Inl (Exn ''DataException'' ''no response'')
           else Inr (PDict [(''status'', PBool True), (''message'', PStr ''SUCCESS''),
                            (''data'', PList [])]), w))"

definition mock_config :: config where
  "mock_config =
     \<lparr> api_key = PStr ''key'', username = PStr ''A100'', pwd = PStr ''1234'',
       token = PStr ''JBSWY3DPEHPK3PXP'', correlation_id = PStr ''abc'' \<rparr>"


definition start :: "'w \<Rightarrow> 'w state" where
  "start w = \<lparr> world = w, calls = [], logs = [], next_obj = 0 \<rparr>"

section \<open>Session establishment, case by case\<close>

lemmas prog_defs = return_def raise_def seq_def try_except_def call_def new_object_def
  logger_error_def logger_exception_def

lemma session_init_raises:
  "sdk (world s) (SmartConnect_init (next_obj s) (api_key cfg)) = (Inl e, w1) \<Longrightarrow>
   get_smart_api_session sdk cfg s =
     (Inl e, s\<lparr>world := w1, calls := calls s @ [SmartConnect_init (next_obj s) (api_key cfg)],
               next_obj := Suc (next_obj s)\<rparr>)"
  by (simp add: get_smart_api_session_def prog_defs)

lemma session_totp_raises:
  "sdk (world s) (SmartConnect_init (next_obj s) (api_key cfg)) = (Inr u, w1) \<Longrightarrow>
   sdk w1 (TOTP_now (token cfg)) = (Inl e, w2) \<Longrightarrow>
   get_smart_api_session sdk cfg s =
     (Inl e, s\<lparr>world := w2,
               calls := calls s @ [SmartConnect_init (next_obj s) (api_key cfg), TOTP_now (token cfg)],
               logs := logs s @ [Logger_error (Text (''Authentication failed: '' @ exn_str e))],
               next_obj := Suc (next_obj s)\<rparr>)"
  by (simp add: get_smart_api_session_def authenticate_def prog_defs)

lemma session_generate_raises:
  "sdk (world s) (SmartConnect_init (next_obj s) (api_key cfg)) = (Inr u, w1) \<Longrightarrow>
   sdk w1 (TOTP_now (token cfg)) = (Inr totp, w2) \<Longrightarrow>
   sdk w2 (GenerateSession (next_obj s) (username cfg) (pwd cfg) totp) = (Inl e, w3) \<Longrightarrow>
   get_smart_api_session sdk cfg s =
     (Inl e, s\<lparr>world := w3,
               calls := calls s @ [SmartConnect_init (next_obj s) (api_key cfg), TOTP_now (token cfg),
                  GenerateSession (next_obj s) (username cfg) (pwd cfg) totp],
               logs := logs s @ [Logger_error (Text (''Authentication failed: '' @ exn_str e))],
               next_obj := Suc (next_obj s)\<rparr>)"
  by (simp add: get_smart_api_session_def authenticate_def prog_defs)

lemma session_status_raises:
  "sdk (world s) (SmartConnect_init (next_obj s) (api_key cfg)) = (Inr u, w1) \<Longrightarrow>
   sdk w1 (TOTP_now (token cfg)) = (Inr totp, w2) \<Longrightarrow>
   sdk w2 (GenerateSession (next_obj s) (username cfg) (pwd cfg) totp) = (Inr data, w3) \<Longrightarrow>
   py_getitem data ''status'' = Inl e \<Longrightarrow>
   get_smart_api_session sdk cfg s =
     (Inl e, s\<lparr>world := w3,
               calls := calls s @ [SmartConnect_init (next_obj s) (api_key cfg), TOTP_now (token cfg),
                  GenerateSession (next_obj s) (username cfg) (pwd cfg) totp],
               logs := logs s @ [Logger_error (Text (''Authentication failed: '' @ exn_str e))],
               next_obj := Suc (next_obj s)\<rparr>)"
  by (simp add: get_smart_api_session_def authenticate_def prog_defs)

lemma session_flagged:
  "sdk (world s) (SmartConnect_init (next_obj s) (api_key cfg)) = (Inr u, w1) \<Longrightarrow>
   sdk w1 (TOTP_now (token cfg)) = (Inr totp, w2) \<Longrightarrow>
   sdk w2 (GenerateSession (next_obj s) (username cfg) (pwd cfg) totp) = (Inr data, w3) \<Longrightarrow>
   py_getitem data ''status'' = Inr status \<Longrightarrow> py_eq_False status \<Longrightarrow>
   get_smart_api_session sdk cfg s =
     (Inl (Exn ''Exception'' ''Failed to authenticate with SmartAPI''),
      s\<lparr>world := w3,
        calls := calls s @ [SmartConnect_init (next_obj s) (api_key cfg), TOTP_now (token cfg),
                  GenerateSession (next_obj s) (username cfg) (pwd cfg) totp],
        logs := logs s @ [Logger_error (Obj data),
                  Logger_error (Text ''Authentication failed: Failed to authenticate with SmartAPI'')],
        next_obj := Suc (next_obj s)\<rparr>)"
  by (simp add: get_smart_api_session_def authenticate_def prog_defs)

lemma session_ok:
  "sdk (world s) (SmartConnect_init (next_obj s) (api_key cfg)) = (Inr u, w1) \<Longrightarrow>
   sdk w1 (TOTP_now (token cfg)) = (Inr totp, w2) \<Longrightarrow>
   sdk w2 (GenerateSession (next_obj s) (username cfg) (pwd cfg) totp) = (Inr data, w3) \<Longrightarrow>
   py_getitem data ''status'' = Inr status \<Longrightarrow> \<not> py_eq_False status \<Longrightarrow>
   get_smart_api_session sdk cfg s =
     (Inr (next_obj s),
      s\<lparr>world := w3,
        calls := calls s @ [SmartConnect_init (next_obj s) (api_key cfg), TOTP_now (token cfg),
                  GenerateSession (next_obj s) (username cfg) (pwd cfg) totp],
        next_obj := Suc (next_obj s)\<rparr>)"
  by (simp add: get_smart_api_session_def authenticate_def prog_defs)

lemma session_Inr:
  "get_smart_api_session sdk cfg s = (Inr h, s1) \<Longrightarrow>
   h = next_obj s \<and> logs s1 = logs s \<and> next_obj s1 = Suc (next_obj s) \<and>
   (\<exists>totp. calls s1 = calls s @ [SmartConnect_init h (api_key cfg), TOTP_now (token cfg),
                  GenerateSession h (username cfg) (pwd cfg) totp])"
  by (auto simp add: get_smart_api_session_def authenticate_def prog_defs
        split: prod.splits sum.splits if_splits)


lemma session_calls_eq:
  "calls (snd (get_smart_api_session sdk cfg s)) = calls s @
     (case sdk (world s) (SmartConnect_init (next_obj s) (api_key cfg)) of
        (Inl e, w1) \<Rightarrow> [SmartConnect_init (next_obj s) (api_key cfg)]
      | (Inr u, w1) \<Rightarrow>
          (case sdk w1 (TOTP_now (token cfg)) of
             (Inl e, w2) \<Rightarrow> [SmartConnect_init (next_obj s) (api_key cfg), TOTP_now (token cfg)]
           | (Inr totp, w2) \<Rightarrow>
               [SmartConnect_init (next_obj s) (api_key cfg), TOTP_now (token cfg),
                GenerateSession (next_obj s) (username cfg) (pwd cfg) totp]))"
  by (simp add: get_smart_api_session_def authenticate_def prog_defs
        split: prod.split sum.split)

lemma session_calls:
  "\<exists>n totp. 0 < n \<and> n \<le> 3 \<and> calls (snd (get_smart_api_session sdk cfg s)) = calls s @ take n
      [SmartConnect_init (next_obj s) (api_key cfg), TOTP_now (token cfg),
       GenerateSession (next_obj s) (username cfg) (pwd cfg) totp]"
proof (cases "sdk (world s) (SmartConnect_init (next_obj s) (api_key cfg))")
  case init: (Pair r0 w1)
  show ?thesis
  proof (cases r0)
    case (Inl e)
    with init have "calls (snd (get_smart_api_session sdk cfg s)) = calls s @ take 1
      [SmartConnect_init (next_obj s) (api_key cfg), TOTP_now (token cfg),
       GenerateSession (next_obj s) (username cfg) (pwd cfg) PNone]"
      by (simp add: session_calls_eq)
    then show ?thesis by (intro exI[of _ 1] exI[of _ PNone]) simp
  next
    case (Inr u)
    show ?thesis
    proof (cases "sdk w1 (TOTP_now (token cfg))")
      case totp: (Pair r1 w2)
      show ?thesis
      proof (cases r1)
        case (Inl e)
        with init \<open>r0 = Inr u\<close> totp have "calls (snd (get_smart_api_session sdk cfg s)) = calls s @ take 2
          [SmartConnect_init (next_obj s) (api_key cfg), TOTP_now (token cfg),
           GenerateSession (next_obj s) (username cfg) (pwd cfg) PNone]"
          by (simp add: session_calls_eq)
        then show ?thesis by (intro exI[of _ 2] exI[of _ PNone]) simp
      next
        case (Inr totp_v)
        with init \<open>r0 = Inr u\<close> totp have "calls (snd (get_smart_api_session sdk cfg s)) = calls s @ take 3
          [SmartConnect_init (next_obj s) (api_key cfg), TOTP_now (token cfg),
           GenerateSession (next_obj s) (username cfg) (pwd cfg) totp_v]"
          by (simp add: session_calls_eq)
        then show ?thesis by (intro exI[of _ 3] exI[of _ totp_v]) simp
      qed
    qed
  qed
qed

lemma session_next_obj:
  "next_obj (snd (get_smart_api_session sdk cfg s)) = Suc (next_obj s)"
  by (simp add: get_smart_api_session_def authenticate_def prog_defs
        split: prod.split sum.split)


subsection \<open>The tools in terms of the session\<close>

lemma get_proftfolio_session_raises:
  "get_smart_api_session sdk cfg s = (Inl e, s1) \<Longrightarrow>
   get_proftfolio sdk cfg s =
     (Inl e, s1\<lparr>logs := logs s1 @ [Logger_exception (Text (''Failed to get portfolio: '' @ exn_str e))]\<rparr>)"
  by (simp add: get_proftfolio_def prog_defs)

lemma get_proftfolio_call_raises:
  "get_smart_api_session sdk cfg s = (Inr h, s1) \<Longrightarrow> sdk (world s1) (Holding h) = (Inl e, w2) \<Longrightarrow>
   get_proftfolio sdk cfg s =
     (Inl e, s1\<lparr>world := w2, calls := calls s1 @ [Holding h],
                logs := logs s1 @ [Logger_exception (Text (''Failed to get portfolio: '' @ exn_str e))]\<rparr>)"
  by (simp add: get_proftfolio_def prog_defs)

lemma get_candle_data_session_raises:
  "get_smart_api_session sdk cfg s = (Inl e, s1) \<Longrightarrow>
   get_candle_data sdk cfg start_time end_time symboltoken interval s =
     (Inr PNone, s1\<lparr>logs := logs s1 @ [Logger_exception (Text (''Historic Api failed: '' @ exn_str e))]\<rparr>)"
  by (simp add: get_candle_data_def prog_defs)

lemma get_candle_data_call_raises:
  "get_smart_api_session sdk cfg s = (Inr h, s1) \<Longrightarrow>
   sdk (world s1) (GetCandleData h (PDict
       [(''exchange'', PStr ''NSE''),
        (''symboltoken'', default_arg (PStr ''3045'') symboltoken),
        (''interval'', default_arg (PStr ''ONE_MINUTE'') interval),
        (''fromdate'', start_time),
        (''todate'', end_time)])) = (Inl e, w2) \<Longrightarrow>
   get_candle_data sdk cfg start_time end_time symboltoken interval s =
     (Inr PNone, s1\<lparr>world := w2,
        calls := calls s1 @ [GetCandleData h (PDict
           [(''exchange'', PStr ''NSE''),
            (''symboltoken'', default_arg (PStr ''3045'') symboltoken),
            (''interval'', default_arg (PStr ''ONE_MINUTE'') interval),
            (''fromdate'', start_time),
            (''todate'', end_time)])],
        logs := logs s1 @ [Logger_exception (Text (''Historic Api failed: '' @ exn_str e))]\<rparr>)"
  by (simp add: get_candle_data_def prog_defs)

lemma place_order_session_raises:
  "get_smart_api_session sdk cfg s = (Inl e, s1) \<Longrightarrow>
   place_order sdk cfg symbol symboltoken transactiontype quantity ordertype producttype price s =
     (Inr PNone, s1\<lparr>logs := logs s1 @ [Logger_exception (Text (''Order placement failed: '' @ exn_str e))]\<rparr>)"
  by (simp add: place_order_def prog_defs)

lemma place_order_call_raises:
  "get_smart_api_session sdk cfg s = (Inr h, s1) \<Longrightarrow>
   sdk (world s1) (PlaceOrderFullResponse h (PDict
       [(''variety'', PStr ''NORMAL''),
        (''tradingsymbol'', symbol),
        (''symboltoken'', symboltoken),
        (''transactiontype'', transactiontype),
        (''exchange'', PStr ''NSE''),
        (''ordertype'', default_arg (PStr ''LIMIT'') ordertype),
        (''producttype'', default_arg (PStr ''DELIVERY'') producttype),
        (''duration'', PStr ''DAY''),
        (''price'', default_arg (PInt 0) price),
        (''squareoff'', PStr ''0''),
        (''stoploss'', PStr ''0''),
        (''quantity'', quantity)])) = (Inl e, w2) \<Longrightarrow>
   place_order sdk cfg symbol symboltoken transactiontype quantity ordertype producttype price s =
     (Inr PNone, s1\<lparr>world := w2,
        calls := calls s1 @ [PlaceOrderFullResponse h (PDict
           [(''variety'', PStr ''NORMAL''),
            (''tradingsymbol'', symbol),
            (''symboltoken'', symboltoken),
            (''transactiontype'', transactiontype),
            (''exchange'', PStr ''NSE''),
            (''ordertype'', default_arg (PStr ''LIMIT'') ordertype),
            (''producttype'', default_arg (PStr ''DELIVERY'') producttype),
            (''duration'', PStr ''DAY''),
            (''price'', default_arg (PInt 0) price),
            (''squareoff'', PStr ''0''),
            (''stoploss'', PStr ''0''),
            (''quantity'', quantity)])],
        logs := logs s1 @ [Logger_exception (Text (''Order placement failed: '' @ exn_str e))]\<rparr>)"
  by (simp add: place_order_def prog_defs)

lemma cancel_order_session_raises:
  "get_smart_api_session sdk cfg s = (Inl e, s1) \<Longrightarrow>
   cancel_order sdk cfg order_id variety s =
     (Inr PNone, s1\<lparr>logs := logs s1 @ [Logger_exception (Text (''Failed to cancel the order: '' @ exn_str e))]\<rparr>)"
  by (simp add: cancel_order_def prog_defs)

lemma cancel_order_call_raises:
  "get_smart_api_session sdk cfg s = (Inr h, s1) \<Longrightarrow>
   sdk (world s1) (CancelOrder h order_id (default_arg (PStr ''NORMAL'') variety)) = (Inl e, w2) \<Longrightarrow>
   cancel_order sdk cfg order_id variety s =
     (Inr PNone, s1\<lparr>world := w2,
        calls := calls s1 @ [CancelOrder h order_id (default_arg (PStr ''NORMAL'') variety)],
        logs := logs s1 @ [Logger_exception (Text (''Failed to cancel the order: '' @ exn_str e))]\<rparr>)"
  by (simp add: cancel_order_def prog_defs)

lemma get_order_book_session_raises:
  "get_smart_api_session sdk cfg s = (Inl e, s1) \<Longrightarrow>
   get_order_book sdk cfg s =
     (Inr PNone, s1\<lparr>logs := logs s1 @ [Logger_exception (Text (''Fetching order book failed: '' @ exn_str e))]\<rparr>)"
  by (simp add: get_order_book_def prog_defs)

lemma get_order_book_call_raises:
  "get_smart_api_session sdk cfg s = (Inr h, s1) \<Longrightarrow> sdk (world s1) (OrderBook h) = (Inl e, w2) \<Longrightarrow>
   get_order_book sdk cfg s =
     (Inr PNone, s1\<lparr>world := w2, calls := calls s1 @ [OrderBook h],
        logs := logs s1 @ [Logger_exception (Text (''Fetching order book failed: '' @ exn_str e))]\<rparr>)"
  by (simp add: get_order_book_def prog_defs)

text \<open>A handler that logs and returns a value turns every outcome into a return.\<close>

lemma swallowing_handler_returns:
  "\<exists>v. fst (try_except m (\<lambda>e. seq (logger_exception (f e)) (\<lambda>_. return d)) s) = Inr v"
  by (simp add: prog_defs split: prod.split sum.split)

lemma get_candle_data_returns:
  "\<exists>v. fst (get_candle_data sdk cfg start_time end_time symboltoken interval s) = Inr v"
  unfolding get_candle_data_def Let_def by (rule swallowing_handler_returns)

lemma place_order_returns:
  "\<exists>v. fst (place_order sdk cfg symbol symboltoken transactiontype quantity ordertype producttype price s) = Inr v"
  unfolding place_order_def Let_def by (rule swallowing_handler_returns)

lemma cancel_order_returns:
  "\<exists>v. fst (cancel_order sdk cfg order_id variety s) = Inr v"
  unfolding cancel_order_def Let_def by (rule swallowing_handler_returns)

lemma get_order_book_returns:
  "\<exists>v. fst (get_order_book sdk cfg s) = Inr v"
  unfolding get_order_book_def by (rule swallowing_handler_returns)

subsection \<open>The calls a tool makes\<close>

lemma get_proftfolio_calls:
  "calls (snd (get_proftfolio sdk cfg s)) =
     calls (snd (get_smart_api_session sdk cfg s)) @
     (case fst (get_smart_api_session sdk cfg s) of Inl e \<Rightarrow> [] | Inr h \<Rightarrow> [Holding h])"
  by (simp add: get_proftfolio_def prog_defs split: prod.split sum.split)

lemma get_candle_data_calls:
  "calls (snd (get_candle_data sdk cfg start_time end_time symboltoken_arg interval_arg s)) =
     calls (snd (get_smart_api_session sdk cfg s)) @
     (case fst (get_smart_api_session sdk cfg s) of Inl e \<Rightarrow> []
      | Inr h \<Rightarrow> [GetCandleData h (PDict
       [(''exchange'', PStr ''NSE''),
        (''symboltoken'', default_arg (PStr ''3045'') symboltoken_arg),
        (''interval'', default_arg (PStr ''ONE_MINUTE'') interval_arg),
        (''fromdate'', start_time),
        (''todate'', end_time)])])"
  by (simp add: get_candle_data_def prog_defs split: prod.split sum.split)

lemma place_order_calls:
  "calls (snd (place_order sdk cfg symbol symboltoken transactiontype quantity
       ordertype_arg producttype_arg price_arg s)) =
     calls (snd (get_smart_api_session sdk cfg s)) @
     (case fst (get_smart_api_session sdk cfg s) of Inl e \<Rightarrow> []
      | Inr h \<Rightarrow> [PlaceOrderFullResponse h (PDict
       [(''variety'', PStr ''NORMAL''),
        (''tradingsymbol'', symbol),
        (''symboltoken'', symboltoken),
        (''transactiontype'', transactiontype),
        (''exchange'', PStr ''NSE''),
        (''ordertype'', default_arg (PStr ''LIMIT'') ordertype_arg),
        (''producttype'', default_arg (PStr ''DELIVERY'') producttype_arg),
        (''duration'', PStr ''DAY''),
        (''price'', default_arg (PInt 0) price_arg),
        (''squareoff'', PStr ''0''),
        (''stoploss'', PStr ''0''),
        (''quantity'', quantity)])])"
  by (simp add: place_order_def prog_defs split: prod.split sum.split)

lemma cancel_order_calls:
  "calls (snd (cancel_order sdk cfg order_id variety_arg s)) =
     calls (snd (get_smart_api_session sdk cfg s)) @
     (case fst (get_smart_api_session sdk cfg s) of Inl e \<Rightarrow> []
      | Inr h \<Rightarrow> [CancelOrder h order_id (default_arg (PStr ''NORMAL'') variety_arg)])"
  by (simp add: cancel_order_def prog_defs split: prod.split sum.split)

lemma get_order_book_calls:
  "calls (snd (get_order_book sdk cfg s)) =
     calls (snd (get_smart_api_session sdk cfg s)) @
     (case fst (get_smart_api_session sdk cfg s) of Inl e \<Rightarrow> [] | Inr h \<Rightarrow> [OrderBook h])"
  by (simp add: get_order_book_def prog_defs split: prod.split sum.split)

lemma get_proftfolio_next_obj:
  "next_obj (snd (get_proftfolio sdk cfg s)) = next_obj (snd (get_smart_api_session sdk cfg s))"
  by (simp add: get_proftfolio_def prog_defs split: prod.split sum.split)

lemma get_candle_data_next_obj:
  "next_obj (snd (get_candle_data sdk cfg start_time end_time symboltoken_arg interval_arg s)) =
     next_obj (snd (get_smart_api_session sdk cfg s))"
  by (simp add: get_candle_data_def prog_defs split: prod.split sum.split)

lemma place_order_next_obj:
  "next_obj (snd (place_order sdk cfg symbol symboltoken transactiontype quantity
       ordertype_arg producttype_arg price_arg s)) =
     next_obj (snd (get_smart_api_session sdk cfg s))"
  by (simp add: place_order_def prog_defs split: prod.split sum.split)

lemma cancel_order_next_obj:
  "next_obj (snd (cancel_order sdk cfg order_id variety_arg s)) =
     next_obj (snd (get_smart_api_session sdk cfg s))"
  by (simp add: cancel_order_def prog_defs split: prod.split sum.split)

lemma get_order_book_next_obj:
  "next_obj (snd (get_order_book sdk cfg s)) = next_obj (snd (get_smart_api_session sdk cfg s))"
  by (simp add: get_order_book_def prog_defs split: prod.split sum.split)

text \<open>The calls of session establishment are the constructor, the passcode and the login.\<close>

lemma session_calls_kind:
  assumes "c \<in> set (drop (length (calls s)) (calls (snd (get_smart_api_session sdk cfg s))))"
  shows "c = SmartConnect_init (next_obj s) (api_key cfg) \<or> c = TOTP_now (token cfg) \<or>
         (\<exists>totp. c = GenerateSession (next_obj s) (username cfg) (pwd cfg) totp)"
proof -
  obtain n totp where "calls (snd (get_smart_api_session sdk cfg s)) = calls s @ take n
      [SmartConnect_init (next_obj s) (api_key cfg), TOTP_now (token cfg),
       GenerateSession (next_obj s) (username cfg) (pwd cfg) totp]"
    using session_calls [of sdk cfg s] by blast
  with assms have "c \<in> set (take n
      [SmartConnect_init (next_obj s) (api_key cfg), TOTP_now (token cfg),
       GenerateSession (next_obj s) (username cfg) (pwd cfg) totp])"
    by simp
  then have "c \<in> set
      [SmartConnect_init (next_obj s) (api_key cfg), TOTP_now (token cfg),
       GenerateSession (next_obj s) (username cfg) (pwd cfg) totp]"
    by (rule in_set_takeD)
  then show ?thesis by auto
qed

lemma session_calls_length:
  "length (calls s) \<le> length (calls (snd (get_smart_api_session sdk cfg s)))"
  using session_calls [of sdk cfg s] by auto

section \<open>Runs against the mocked SDK\<close>

lemmas run_defs = get_smart_api_session_def authenticate_def prog_defs mock_sdk_def
  mock_config_def start_def py_getitem_def py_eq_False_def default_arg_def

lemma mock_session_All_ok:
  "get_smart_api_session mock_sdk mock_config (start All_ok) =
     (Inr 0,
      \<lparr>world = All_ok,
        calls = [SmartConnect_init 0 (PStr ''key''), TOTP_now (PStr ''JBSWY3DPEHPK3PXP''),
                 GenerateSession 0 (PStr ''A100'') (PStr ''1234'') (PStr ''492039'')],
        logs = [], next_obj = 1\<rparr>)"
  by (simp add: run_defs)

lemma mock_session_Data_raises:
  "get_smart_api_session mock_sdk mock_config (start Data_raises) =
     (Inr 0,
      \<lparr>world = Data_raises,
        calls = [SmartConnect_init 0 (PStr ''key''), TOTP_now (PStr ''JBSWY3DPEHPK3PXP''),
                 GenerateSession 0 (PStr ''A100'') (PStr ''1234'') (PStr ''492039'')],
        logs = [], next_obj = 1\<rparr>)"
  by (simp add: run_defs)

lemma mock_session_Login_rejected:
  "get_smart_api_session mock_sdk mock_config (start Login_rejected) =
     (Inl (Exn ''Exception'' ''Failed to authenticate with SmartAPI''),
      \<lparr>world = Login_rejected,
        calls = [SmartConnect_init 0 (PStr ''key''), TOTP_now (PStr ''JBSWY3DPEHPK3PXP''),
                 GenerateSession 0 (PStr ''A100'') (PStr ''1234'') (PStr ''492039'')],
        logs = [Logger_error (Obj (PDict [(''status'', PBool False), (''message'', PStr ''Invalid totp''),
                            (''errorcode'', PStr ''AB1050''), (''data'', PNone)])),
                Logger_error (Text ''Authentication failed: Failed to authenticate with SmartAPI'')],
        next_obj = 1\<rparr>)"
  by (simp add: run_defs)

section \<open>The greeting resource\<close>

text \<open>
  C7. For every name, the greeting resource returns the text \<^verbatim>\<open>Namastae, \<close> followed by
  the name and an exclamation mark. The function is total and takes no state, so it
  returns for every name and leaves the SDK and the log untouched. For the name
  \<^verbatim>\<open>World\<close> the result is \<^verbatim>\<open>Namastae, World!\<close>.
\<close>

theorem get_greeting_template:
  "get_greeting name = ''Namastae, '' @ name @ ''!''
   \<and> get_greeting ''World'' = ''Namastae, World!''"
  by (simp add: get_greeting_def)

section \<open>Session establishment\<close>

text \<open>
  C4. Once the constructor has returned, session establishment fails in three ways. When
  the login response carries a status equal to \<^verbatim>\<open>False\<close>, it logs the response, raises
  \<^verbatim>\<open>Exception("Failed to authenticate with SmartAPI")\<close> and, that exception being raised
  inside the \<^verbatim>\<open>try\<close> block, logs it once more as \<^verbatim>\<open>Authentication failed: ...\<close> on its way
  out. When the passcode computation raises \<open>e\<close>, or when the login call raises \<open>e\<close>, it
  logs \<^verbatim>\<open>Authentication failed: \<close> followed by \<^verbatim>\<open>str(e)\<close> and raises that same \<open>e\<close>.
\<close>

theorem session_failure:
  assumes init: "sdk (world s) (SmartConnect_init (next_obj s) (api_key cfg)) = (Inr u, w1)"
  shows
    "(\<forall>totp w2 data w3 status.
        sdk w1 (TOTP_now (token cfg)) = (Inr totp, w2) \<and>
        sdk w2 (GenerateSession (next_obj s) (username cfg) (pwd cfg) totp) = (Inr data, w3) \<and>
        py_getitem data ''status'' = Inr status \<and> py_eq_False status \<longrightarrow>
        get_smart_api_session sdk cfg s =
          (Inl (Exn ''Exception'' ''Failed to authenticate with SmartAPI''),
           s\<lparr>world := w3,
             calls := calls s @ [SmartConnect_init (next_obj s) (api_key cfg), TOTP_now (token cfg),
                       GenerateSession (next_obj s) (username cfg) (pwd cfg) totp],
             logs := logs s @ [Logger_error (Obj data),
                       Logger_error (Text ''Authentication failed: Failed to authenticate with SmartAPI'')],
             next_obj := Suc (next_obj s)\<rparr>))
   \<and> (\<forall>e w2.
        sdk w1 (TOTP_now (token cfg)) = (Inl e, w2) \<longrightarrow>
        get_smart_api_session sdk cfg s =
          (Inl e,
           s\<lparr>world := w2,
             calls := calls s @ [SmartConnect_init (next_obj s) (api_key cfg), TOTP_now (token cfg)],
             logs := logs s @ [Logger_error (Text (''Authentication failed: '' @ exn_str e))],
             next_obj := Suc (next_obj s)\<rparr>))
   \<and> (\<forall>totp w2 e w3.
        sdk w1 (TOTP_now (token cfg)) = (Inr totp, w2) \<and>
        sdk w2 (GenerateSession (next_obj s) (username cfg) (pwd cfg) totp) = (Inl e, w3) \<longrightarrow>
        get_smart_api_session sdk cfg s =
          (Inl e,
           s\<lparr>world := w3,
             calls := calls s @ [SmartConnect_init (next_obj s) (api_key cfg), TOTP_now (token cfg),
                       GenerateSession (next_obj s) (username cfg) (pwd cfg) totp],
             logs := logs s @ [Logger_error (Text (''Authentication failed: '' @ exn_str e))],
             next_obj := Suc (next_obj s)\<rparr>))"
proof (intro conjI allI impI)
  fix totp w2 data w3 status
  assume "sdk w1 (TOTP_now (token cfg)) = (Inr totp, w2) \<and>
        sdk w2 (GenerateSession (next_obj s) (username cfg) (pwd cfg) totp) = (Inr data, w3) \<and>
        py_getitem data ''status'' = Inr status \<and> py_eq_False status"
  with init show "get_smart_api_session sdk cfg s =
          (Inl (Exn ''Exception'' ''Failed to authenticate with SmartAPI''),
           s\<lparr>world := w3,
             calls := calls s @ [SmartConnect_init (next_obj s) (api_key cfg), TOTP_now (token cfg),
                       GenerateSession (next_obj s) (username cfg) (pwd cfg) totp],
             logs := logs s @ [Logger_error (Obj data),
                       Logger_error (Text ''Authentication failed: Failed to authenticate with SmartAPI'')],
             next_obj := Suc (next_obj s)\<rparr>)"
    by (simp add: session_flagged)
next
  fix e w2
  assume "sdk w1 (TOTP_now (token cfg)) = (Inl e, w2)"
  with init show "get_smart_api_session sdk cfg s =
          (Inl e,
           s\<lparr>world := w2,
             calls := calls s @ [SmartConnect_init (next_obj s) (api_key cfg), TOTP_now (token cfg)],
             logs := logs s @ [Logger_error (Text (''Authentication failed: '' @ exn_str e))],
             next_obj := Suc (next_obj s)\<rparr>)"
    by (rule session_totp_raises)
next
  fix totp w2 e w3
  assume "sdk w1 (TOTP_now (token cfg)) = (Inr totp, w2) \<and>
        sdk w2 (GenerateSession (next_obj s) (username cfg) (pwd cfg) totp) = (Inl e, w3)"
  with init show "get_smart_api_session sdk cfg s =
          (Inl e,
           s\<lparr>world := w3,
             calls := calls s @ [SmartConnect_init (next_obj s) (api_key cfg), TOTP_now (token cfg),
                       GenerateSession (next_obj s) (username cfg) (pwd cfg) totp],
             logs := logs s @ [Logger_error (Text (''Authentication failed: '' @ exn_str e))],
             next_obj := Suc (next_obj s)\<rparr>)"
    by (simp add: session_generate_raises)
qed

theorem session_failure_witness:
  "get_smart_api_session mock_sdk mock_config (start Login_rejected) =
     (Inl (Exn ''Exception'' ''Failed to authenticate with SmartAPI''),
      \<lparr>world = Login_rejected,
        calls = [SmartConnect_init 0 (PStr ''key''), TOTP_now (PStr ''JBSWY3DPEHPK3PXP''),
                 GenerateSession 0 (PStr ''A100'') (PStr ''1234'') (PStr ''492039'')],
        logs = [Logger_error (Obj (PDict [(''status'', PBool False), (''message'', PStr ''Invalid totp''),
                            (''errorcode'', PStr ''AB1050''), (''data'', PNone)])),
                Logger_error (Text ''Authentication failed: Failed to authenticate with SmartAPI'')],
        next_obj = 1\<rparr>)
   \<and> get_smart_api_session mock_sdk mock_config (start Totp_raises) =
     (Inl (Exn ''TypeError'' ''object of type NoneType has no len()''),
      \<lparr>world = Totp_raises,
        calls = [SmartConnect_init 0 (PStr ''key''), TOTP_now (PStr ''JBSWY3DPEHPK3PXP'')],
        logs = [Logger_error (Text ''Authentication failed: object of type NoneType has no len()'')],
        next_obj = 1\<rparr>)
   \<and> get_smart_api_session mock_sdk mock_config (start Login_raises) =
     (Inl (Exn ''ConnectionError'' ''connection refused''),
      \<lparr>world = Login_raises,
        calls = [SmartConnect_init 0 (PStr ''key''), TOTP_now (PStr ''JBSWY3DPEHPK3PXP''),
                 GenerateSession 0 (PStr ''A100'') (PStr ''1234'') (PStr ''492039'')],
        logs = [Logger_error (Text ''Authentication failed: connection refused'')],
        next_obj = 1\<rparr>)"
  using session_failure [of mock_sdk "start Login_rejected" mock_config PNone Login_rejected]
    session_failure [of mock_sdk "start Totp_raises" mock_config PNone Totp_raises]
    session_failure [of mock_sdk "start Login_raises" mock_config PNone Login_raises]
  by (simp add: mock_sdk_def mock_config_def start_def py_getitem_def py_eq_False_def)

text \<open>
  C5. When the constructor, the passcode computation and the login call return, and the
  login response has a status that does not equal \<^verbatim>\<open>False\<close>, session establishment
  returns the instance it constructed, which is the one the login was invoked on (the last
  call of the trace). Nothing is called on the instance afterwards and nothing is logged:
  the world is the one the login call left.
\<close>

theorem session_success:
  assumes "sdk (world s) (SmartConnect_init (next_obj s) (api_key cfg)) = (Inr u, w1)"
    and "sdk w1 (TOTP_now (token cfg)) = (Inr totp, w2)"
    and "sdk w2 (GenerateSession (next_obj s) (username cfg) (pwd cfg) totp) = (Inr data, w3)"
    and "py_getitem data ''status'' = Inr status"
    and "\<not> py_eq_False status"
  shows "get_smart_api_session sdk cfg s =
     (Inr (next_obj s),
      s\<lparr>world := w3,
        calls := calls s @ [SmartConnect_init (next_obj s) (api_key cfg), TOTP_now (token cfg),
                  GenerateSession (next_obj s) (username cfg) (pwd cfg) totp],
        next_obj := Suc (next_obj s)\<rparr>)"
  using assms by (rule session_ok)

theorem session_success_witness:
  "get_smart_api_session mock_sdk mock_config (start All_ok) =
     (Inr 0,
      \<lparr>world = All_ok,
        calls = [SmartConnect_init 0 (PStr ''key''), TOTP_now (PStr ''JBSWY3DPEHPK3PXP''),
                 GenerateSession 0 (PStr ''A100'') (PStr ''1234'') (PStr ''492039'')],
        logs = [], next_obj = 1\<rparr>)"
  using session_success [of mock_sdk "start All_ok" mock_config PNone All_ok "PStr ''492039''" All_ok
      "PDict [(''status'', PBool True), (''message'', PStr ''SUCCESS''),
              (''data'', PDict [(''clientcode'', PStr ''A100'')])]" All_ok "PBool True"]
  by (simp add: mock_sdk_def mock_config_def start_def py_getitem_def py_eq_False_def)

section \<open>Error policies of the tools\<close>

text \<open>
  C2. When session establishment raises \<open>e\<close>, and when the holdings call raises \<open>e\<close>,
  portfolio lookup logs \<^verbatim>\<open>Failed to get portfolio: \<close> followed by \<^verbatim>\<open>str(e)\<close> and raises
  that same \<open>e\<close>. Candle retrieval, order placement, order cancellation and order book
  listing return a value in every run, so portfolio lookup is the only tool that raises;
  the greeting resource is a pure function.
\<close>

theorem portfolio_reraises:
  "(\<forall>e s1. get_smart_api_session sdk cfg s = (Inl e, s1) \<longrightarrow>
      get_proftfolio sdk cfg s =
        (Inl e, s1\<lparr>logs := logs s1 @
           [Logger_exception (Text (''Failed to get portfolio: '' @ exn_str e))]\<rparr>))
   \<and> (\<forall>h s1 e w2.
        get_smart_api_session sdk cfg s = (Inr h, s1) \<and> sdk (world s1) (Holding h) = (Inl e, w2) \<longrightarrow>
        get_proftfolio sdk cfg s =
          (Inl e, s1\<lparr>world := w2, calls := calls s1 @ [Holding h],
             logs := logs s1 @
               [Logger_exception (Text (''Failed to get portfolio: '' @ exn_str e))]\<rparr>))
   \<and> (\<exists>v. fst (get_candle_data sdk cfg start_time end_time symboltoken_arg interval_arg s) = Inr v)
   \<and> (\<exists>v. fst (place_order sdk cfg symbol symboltoken transactiontype quantity
               ordertype_arg producttype_arg price_arg s) = Inr v)
   \<and> (\<exists>v. fst (cancel_order sdk cfg order_id variety_arg s) = Inr v)
   \<and> (\<exists>v. fst (get_order_book sdk cfg s) = Inr v)"
proof (intro conjI allI impI)
  fix e s1
  assume "get_smart_api_session sdk cfg s = (Inl e, s1)"
  then show "get_proftfolio sdk cfg s =
        (Inl e, s1\<lparr>logs := logs s1 @
           [Logger_exception (Text (''Failed to get portfolio: '' @ exn_str e))]\<rparr>)"
    by (rule get_proftfolio_session_raises)
next
  fix h s1 e w2
  assume "get_smart_api_session sdk cfg s = (Inr h, s1) \<and> sdk (world s1) (Holding h) = (Inl e, w2)"
  then show "get_proftfolio sdk cfg s =
          (Inl e, s1\<lparr>world := w2, calls := calls s1 @ [Holding h],
             logs := logs s1 @
               [Logger_exception (Text (''Failed to get portfolio: '' @ exn_str e))]\<rparr>)"
    by (simp add: get_proftfolio_call_raises)
qed (rule get_candle_data_returns place_order_returns cancel_order_returns
       get_order_book_returns)+

theorem portfolio_reraises_witness:
  "get_proftfolio mock_sdk mock_config (start Login_rejected) =
     (Inl (Exn ''Exception'' ''Failed to authenticate with SmartAPI''),
      \<lparr>world = Login_rejected,
        calls = [SmartConnect_init 0 (PStr ''key''), TOTP_now (PStr ''JBSWY3DPEHPK3PXP''),
                 GenerateSession 0 (PStr ''A100'') (PStr ''1234'') (PStr ''492039'')],
        logs = [Logger_error (Obj (PDict [(''status'', PBool False), (''message'', PStr ''Invalid totp''),
                            (''errorcode'', PStr ''AB1050''), (''data'', PNone)])),
                Logger_error (Text ''Authentication failed: Failed to authenticate with SmartAPI''),
                Logger_exception (Text ''Failed to get portfolio: Failed to authenticate with SmartAPI'')],
        next_obj = 1\<rparr>)
   \<and> get_proftfolio mock_sdk mock_config (start Data_raises) =
     (Inl (Exn ''DataException'' ''no response''),
      \<lparr>world = Data_raises,
        calls = [SmartConnect_init 0 (PStr ''key''), TOTP_now (PStr ''JBSWY3DPEHPK3PXP''),
                 GenerateSession 0 (PStr ''A100'') (PStr ''1234'') (PStr ''492039''), Holding 0],
        logs = [Logger_exception (Text ''Failed to get portfolio: no response'')],
        next_obj = 1\<rparr>)"
  using portfolio_reraises [of mock_sdk mock_config "start Login_rejected"]
    portfolio_reraises [of mock_sdk mock_config "start Data_raises"]
  by (simp add: mock_session_Login_rejected mock_session_Data_raises mock_sdk_def)

text \<open>
  C3. For candle retrieval, order placement, order cancellation and order book listing:
  when the session is established and the data call of the tool raises \<open>e\<close>, the tool
  logs its own message followed by \<^verbatim>\<open>str(e)\<close> and returns \<^verbatim>\<open>None\<close>.
\<close>

theorem data_call_failure_swallowed:
  "(\<forall>h s1 e w2.
      get_smart_api_session sdk cfg s = (Inr h, s1) \<and>
      sdk (world s1) (GetCandleData h (PDict
       [(''exchange'', PStr ''NSE''),
        (''symboltoken'', default_arg (PStr ''3045'') symboltoken_arg),
        (''interval'', default_arg (PStr ''ONE_MINUTE'') interval_arg),
        (''fromdate'', start_time),
        (''todate'', end_time)])) = (Inl e, w2) \<longrightarrow>
      get_candle_data sdk cfg start_time end_time symboltoken_arg interval_arg s =
        (Inr PNone,
         s1\<lparr>world := w2, calls := calls s1 @ [GetCandleData h (PDict
       [(''exchange'', PStr ''NSE''),
        (''symboltoken'', default_arg (PStr ''3045'') symboltoken_arg),
        (''interval'', default_arg (PStr ''ONE_MINUTE'') interval_arg),
        (''fromdate'', start_time),
        (''todate'', end_time)])],
            logs := logs s1 @ [Logger_exception (Text (''Historic Api failed: '' @ exn_str e))]\<rparr>))
   \<and> (\<forall>h s1 e w2.
      get_smart_api_session sdk cfg s = (Inr h, s1) \<and>
      sdk (world s1) (PlaceOrderFullResponse h (PDict
       [(''variety'', PStr ''NORMAL''),
        (''tradingsymbol'', symbol),
        (''symboltoken'', symboltoken),
        (''transactiontype'', transactiontype),
        (''exchange'', PStr ''NSE''),
        (''ordertype'', default_arg (PStr ''LIMIT'') ordertype_arg),
        (''producttype'', default_arg (PStr ''DELIVERY'') producttype_arg),
        (''duration'', PStr ''DAY''),
        (''price'', default_arg (PInt 0) price_arg),
        (''squareoff'', PStr ''0''),
        (''stoploss'', PStr ''0''),
        (''quantity'', quantity)])) = (Inl e, w2) \<longrightarrow>
      place_order sdk cfg symbol symboltoken transactiontype quantity
          ordertype_arg producttype_arg price_arg s =
        (Inr PNone,
         s1\<lparr>world := w2, calls := calls s1 @ [PlaceOrderFullResponse h (PDict
       [(''variety'', PStr ''NORMAL''),
        (''tradingsymbol'', symbol),
        (''symboltoken'', symboltoken),
        (''transactiontype'', transactiontype),
        (''exchange'', PStr ''NSE''),
        (''ordertype'', default_arg (PStr ''LIMIT'') ordertype_arg),
        (''producttype'', default_arg (PStr ''DELIVERY'') producttype_arg),
        (''duration'', PStr ''DAY''),
        (''price'', default_arg (PInt 0) price_arg),
        (''squareoff'', PStr ''0''),
        (''stoploss'', PStr ''0''),
        (''quantity'', quantity)])],
            logs := logs s1 @ [Logger_exception (Text (''Order placement failed: '' @ exn_str e))]\<rparr>))
   \<and> (\<forall>h s1 e w2.
      get_smart_api_session sdk cfg s = (Inr h, s1) \<and>
      sdk (world s1) (CancelOrder h order_id (default_arg (PStr ''NORMAL'') variety_arg)) = (Inl e, w2) \<longrightarrow>
      cancel_order sdk cfg order_id variety_arg s =
        (Inr PNone,
         s1\<lparr>world := w2,
            calls := calls s1 @ [CancelOrder h order_id (default_arg (PStr ''NORMAL'') variety_arg)],
            logs := logs s1 @ [Logger_exception (Text (''Failed to cancel the order: '' @ exn_str e))]\<rparr>))
   \<and> (\<forall>h s1 e w2.
      get_smart_api_session sdk cfg s = (Inr h, s1) \<and> sdk (world s1) (OrderBook h) = (Inl e, w2) \<longrightarrow>
      get_order_book sdk cfg s =
        (Inr PNone,
         s1\<lparr>world := w2, calls := calls s1 @ [OrderBook h],
            logs := logs s1 @ [Logger_exception (Text (''Fetching order book failed: '' @ exn_str e))]\<rparr>))"
  by (simp add: get_candle_data_call_raises place_order_call_raises cancel_order_call_raises
        get_order_book_call_raises)

theorem data_call_failure_swallowed_witness:
  "get_candle_data mock_sdk mock_config (PStr ''2024-01-01 09:15'') (PStr ''2024-01-01 15:30'')
       None None (start Data_raises) =
     (Inr PNone,
      \<lparr>world = Data_raises,
        calls = [SmartConnect_init 0 (PStr ''key''), TOTP_now (PStr ''JBSWY3DPEHPK3PXP''),
                 GenerateSession 0 (PStr ''A100'') (PStr ''1234'') (PStr ''492039''),
                 GetCandleData 0 (PDict
                   [(''exchange'', PStr ''NSE''), (''symboltoken'', PStr ''3045''),
                    (''interval'', PStr ''ONE_MINUTE''), (''fromdate'', PStr ''2024-01-01 09:15''),
                    (''todate'', PStr ''2024-01-01 15:30'')])],
        logs = [Logger_exception (Text ''Historic Api failed: no response'')],
        next_obj = 1\<rparr>)
   \<and> place_order mock_sdk mock_config (PStr ''INFY'') (PStr ''1594'') (PStr ''BUY'') (PInt 5)
       None None None (start Data_raises) =
     (Inr PNone,
      \<lparr>world = Data_raises,
        calls = [SmartConnect_init 0 (PStr ''key''), TOTP_now (PStr ''JBSWY3DPEHPK3PXP''),
                 GenerateSession 0 (PStr ''A100'') (PStr ''1234'') (PStr ''492039''),
                 PlaceOrderFullResponse 0 (PDict
                   [(''variety'', PStr ''NORMAL''), (''tradingsymbol'', PStr ''INFY''),
                    (''symboltoken'', PStr ''1594''), (''transactiontype'', PStr ''BUY''),
                    (''exchange'', PStr ''NSE''), (''ordertype'', PStr ''LIMIT''),
                    (''producttype'', PStr ''DELIVERY''), (''duration'', PStr ''DAY''),
                    (''price'', PInt 0), (''squareoff'', PStr ''0''), (''stoploss'', PStr ''0''),
                    (''quantity'', PInt 5)])],
        logs = [Logger_exception (Text ''Order placement failed: no response'')],
        next_obj = 1\<rparr>)
   \<and> cancel_order mock_sdk mock_config (PStr ''240101000000017'') None (start Data_raises) =
     (Inr PNone,
      \<lparr>world = Data_raises,
        calls = [SmartConnect_init 0 (PStr ''key''), TOTP_now (PStr ''JBSWY3DPEHPK3PXP''),
                 GenerateSession 0 (PStr ''A100'') (PStr ''1234'') (PStr ''492039''),
                 CancelOrder 0 (PStr ''240101000000017'') (PStr ''NORMAL'')],
        logs = [Logger_exception (Text ''Failed to cancel the order: no response'')],
        next_obj = 1\<rparr>)
   \<and> get_order_book mock_sdk mock_config (start Data_raises) =
     (Inr PNone,
      \<lparr>world = Data_raises,
        calls = [SmartConnect_init 0 (PStr ''key''), TOTP_now (PStr ''JBSWY3DPEHPK3PXP''),
                 GenerateSession 0 (PStr ''A100'') (PStr ''1234'') (PStr ''492039''), OrderBook 0],
        logs = [Logger_exception (Text ''Fetching order book failed: no response'')],
        next_obj = 1\<rparr>)"
  using data_call_failure_swallowed [where sdk = mock_sdk and cfg = mock_config
      and s = "start Data_raises"
      and start_time = "PStr ''2024-01-01 09:15''" and end_time = "PStr ''2024-01-01 15:30''"
      and symboltoken_arg = None and interval_arg = None
      and symbol = "PStr ''INFY''" and symboltoken = "PStr ''1594''"
      and transactiontype = "PStr ''BUY''" and quantity = "PInt 5"
      and ordertype_arg = None and producttype_arg = None and price_arg = None
      and order_id = "PStr ''240101000000017''" and variety_arg = None]
  by (simp add: mock_session_Data_raises mock_sdk_def default_arg_def)

text \<open>
  C9. For candle retrieval, order placement, order cancellation and order book listing:
  when session establishment raises \<open>e\<close> (as it does on a failure-flagged login response),
  the tool catches \<open>e\<close>, logs its own message followed by \<^verbatim>\<open>str(e)\<close> and returns
  \<^verbatim>\<open>None\<close>. A run in which the session is established and the data call raises returns
  the same value, so the result does not tell the two failures apart.
\<close>

theorem auth_failure_swallowed:
  "(\<forall>e s1. get_smart_api_session sdk cfg s = (Inl e, s1) \<longrightarrow>
      get_candle_data sdk cfg start_time end_time symboltoken_arg interval_arg s =
        (Inr PNone,
         s1\<lparr>logs := logs s1 @ [Logger_exception (Text (''Historic Api failed: '' @ exn_str e))]\<rparr>)
      \<and> place_order sdk cfg symbol symboltoken transactiontype quantity
          ordertype_arg producttype_arg price_arg s =
        (Inr PNone,
         s1\<lparr>logs := logs s1 @ [Logger_exception (Text (''Order placement failed: '' @ exn_str e))]\<rparr>)
      \<and> cancel_order sdk cfg order_id variety_arg s =
        (Inr PNone,
         s1\<lparr>logs := logs s1 @ [Logger_exception (Text (''Failed to cancel the order: '' @ exn_str e))]\<rparr>)
      \<and> get_order_book sdk cfg s =
        (Inr PNone,
         s1\<lparr>logs := logs s1 @ [Logger_exception (Text (''Fetching order book failed: '' @ exn_str e))]\<rparr>))
   \<and> (\<forall>e s1 h t1 e' w'.
        get_smart_api_session sdk cfg s = (Inl e, s1) \<and>
        get_smart_api_session sdk' cfg' t = (Inr h, t1) \<and>
        sdk' (world t1) (GetCandleData h (PDict
       [(''exchange'', PStr ''NSE''),
        (''symboltoken'', default_arg (PStr ''3045'') symboltoken_arg),
        (''interval'', default_arg (PStr ''ONE_MINUTE'') interval_arg),
        (''fromdate'', start_time),
        (''todate'', end_time)])) = (Inl e', w') \<longrightarrow>
        fst (get_candle_data sdk cfg start_time end_time symboltoken_arg interval_arg s) =
        fst (get_candle_data sdk' cfg' start_time end_time symboltoken_arg interval_arg t))
   \<and> (\<forall>e s1 h t1 e' w'.
        get_smart_api_session sdk cfg s = (Inl e, s1) \<and>
        get_smart_api_session sdk' cfg' t = (Inr h, t1) \<and>
        sdk' (world t1) (PlaceOrderFullResponse h (PDict
       [(''variety'', PStr ''NORMAL''),
        (''tradingsymbol'', symbol),
        (''symboltoken'', symboltoken),
        (''transactiontype'', transactiontype),
        (''exchange'', PStr ''NSE''),
        (''ordertype'', default_arg (PStr ''LIMIT'') ordertype_arg),
        (''producttype'', default_arg (PStr ''DELIVERY'') producttype_arg),
        (''duration'', PStr ''DAY''),
        (''price'', default_arg (PInt 0) price_arg),
        (''squareoff'', PStr ''0''),
        (''stoploss'', PStr ''0''),
        (''quantity'', quantity)])) = (Inl e', w') \<longrightarrow>
        fst (place_order sdk cfg symbol symboltoken transactiontype quantity
               ordertype_arg producttype_arg price_arg s) =
        fst (place_order sdk' cfg' symbol symboltoken transactiontype quantity
               ordertype_arg producttype_arg price_arg t))
   \<and> (\<forall>e s1 h t1 e' w'.
        get_smart_api_session sdk cfg s = (Inl e, s1) \<and>
        get_smart_api_session sdk' cfg' t = (Inr h, t1) \<and>
        sdk' (world t1) (CancelOrder h order_id (default_arg (PStr ''NORMAL'') variety_arg)) = (Inl e', w') \<longrightarrow>
        fst (cancel_order sdk cfg order_id variety_arg s) =
        fst (cancel_order sdk' cfg' order_id variety_arg t))
   \<and> (\<forall>e s1 h t1 e' w'.
        get_smart_api_session sdk cfg s = (Inl e, s1) \<and>
        get_smart_api_session sdk' cfg' t = (Inr h, t1) \<and>
        sdk' (world t1) (OrderBook h) = (Inl e', w') \<longrightarrow>
        fst (get_order_book sdk cfg s) = fst (get_order_book sdk' cfg' t))"
  by (simp add: get_candle_data_session_raises place_order_session_raises
        cancel_order_session_raises get_order_book_session_raises
        get_candle_data_call_raises place_order_call_raises cancel_order_call_raises
        get_order_book_call_raises)

theorem auth_failure_swallowed_witness:
  "get_candle_data mock_sdk mock_config (PStr ''2024-01-01 09:15'') (PStr ''2024-01-01 15:30'')
       None None (start Login_rejected) =
     (Inr PNone, \<lparr>world = Login_rejected,
        calls = [SmartConnect_init 0 (PStr ''key''), TOTP_now (PStr ''JBSWY3DPEHPK3PXP''),
                 GenerateSession 0 (PStr ''A100'') (PStr ''1234'') (PStr ''492039'')],
        logs = [Logger_error (Obj (PDict [(''status'', PBool False), (''message'', PStr ''Invalid totp''),
                            (''errorcode'', PStr ''AB1050''), (''data'', PNone)])),
                Logger_error (Text ''Authentication failed: Failed to authenticate with SmartAPI''),
                Logger_exception (Text ''Historic Api failed: Failed to authenticate with SmartAPI'')],
        next_obj = 1\<rparr>)
   \<and> place_order mock_sdk mock_config (PStr ''INFY'') (PStr ''1594'') (PStr ''BUY'') (PInt 5)
       None None None (start Login_rejected) =
     (Inr PNone, \<lparr>world = Login_rejected,
        calls = [SmartConnect_init 0 (PStr ''key''), TOTP_now (PStr ''JBSWY3DPEHPK3PXP''),
                 GenerateSession 0 (PStr ''A100'') (PStr ''1234'') (PStr ''492039'')],
        logs = [Logger_error (Obj (PDict [(''status'', PBool False), (''message'', PStr ''Invalid totp''),
                            (''errorcode'', PStr ''AB1050''), (''data'', PNone)])),
                Logger_error (Text ''Authentication failed: Failed to authenticate with SmartAPI''),
                Logger_exception (Text ''Order placement failed: Failed to authenticate with SmartAPI'')],
        next_obj = 1\<rparr>)
   \<and> cancel_order mock_sdk mock_config (PStr ''240101000000017'') None (start Login_rejected) =
     (Inr PNone, \<lparr>world = Login_rejected,
        calls = [SmartConnect_init 0 (PStr ''key''), TOTP_now (PStr ''JBSWY3DPEHPK3PXP''),
                 GenerateSession 0 (PStr ''A100'') (PStr ''1234'') (PStr ''492039'')],
        logs = [Logger_error (Obj (PDict [(''status'', PBool False), (''message'', PStr ''Invalid totp''),
                            (''errorcode'', PStr ''AB1050''), (''data'', PNone)])),
                Logger_error (Text ''Authentication failed: Failed to authenticate with SmartAPI''),
                Logger_exception (Text ''Failed to cancel the order: Failed to authenticate with SmartAPI'')],
        next_obj = 1\<rparr>)
   \<and> get_order_book mock_sdk mock_config (start Login_rejected) =
     (Inr PNone, \<lparr>world = Login_rejected,
        calls = [SmartConnect_init 0 (PStr ''key''), TOTP_now (PStr ''JBSWY3DPEHPK3PXP''),
                 GenerateSession 0 (PStr ''A100'') (PStr ''1234'') (PStr ''492039'')],
        logs = [Logger_error (Obj (PDict [(''status'', PBool False), (''message'', PStr ''Invalid totp''),
                            (''errorcode'', PStr ''AB1050''), (''data'', PNone)])),
                Logger_error (Text ''Authentication failed: Failed to authenticate with SmartAPI''),
                Logger_exception (Text ''Fetching order book failed: Failed to authenticate with SmartAPI'')],
        next_obj = 1\<rparr>)
   \<and> fst (get_candle_data mock_sdk mock_config (PStr ''2024-01-01 09:15'') (PStr ''2024-01-01 15:30'')
       None None (start Data_raises)) = Inr PNone
   \<and> fst (place_order mock_sdk mock_config (PStr ''INFY'') (PStr ''1594'') (PStr ''BUY'') (PInt 5)
       None None None (start Data_raises)) = Inr PNone
   \<and> fst (cancel_order mock_sdk mock_config (PStr ''240101000000017'') None (start Data_raises)) = Inr PNone
   \<and> fst (get_order_book mock_sdk mock_config (start Data_raises)) = Inr PNone"
proof -
  note run = auth_failure_swallowed [where sdk = mock_sdk and cfg = mock_config
      and s = "start Login_rejected"
      and sdk' = mock_sdk and cfg' = mock_config and t = "start Data_raises"
      and start_time = "PStr ''2024-01-01 09:15''" and end_time = "PStr ''2024-01-01 15:30''"
      and symboltoken_arg = None and interval_arg = None
      and symbol = "PStr ''INFY''" and symboltoken = "PStr ''1594''"
      and transactiontype = "PStr ''BUY''" and quantity = "PInt 5"
      and ordertype_arg = None and producttype_arg = None and price_arg = None
      and order_id = "PStr ''240101000000017''" and variety_arg = None]
  note rejected = run [THEN conjunct1, rule_format, OF mock_session_Login_rejected]
  from run [THEN conjunct2] have same:
    "fst (get_candle_data mock_sdk mock_config (PStr ''2024-01-01 09:15'') (PStr ''2024-01-01 15:30'')
       None None (start Login_rejected)) =
     fst (get_candle_data mock_sdk mock_config (PStr ''2024-01-01 09:15'') (PStr ''2024-01-01 15:30'')
       None None (start Data_raises))"
    "fst (place_order mock_sdk mock_config (PStr ''INFY'') (PStr ''1594'') (PStr ''BUY'') (PInt 5)
       None None None (start Login_rejected)) =
     fst (place_order mock_sdk mock_config (PStr ''INFY'') (PStr ''1594'') (PStr ''BUY'') (PInt 5)
       None None None (start Data_raises))"
    "fst (cancel_order mock_sdk mock_config (PStr ''240101000000017'') None (start Login_rejected)) =
     fst (cancel_order mock_sdk mock_config (PStr ''240101000000017'') None (start Data_raises))"
    "fst (get_order_book mock_sdk mock_config (start Login_rejected)) =
     fst (get_order_book mock_sdk mock_config (start Data_raises))"
    by (simp_all add: mock_session_Login_rejected mock_session_Data_raises mock_sdk_def
          default_arg_def)
  show ?thesis
    unfolding same [symmetric] by (simp add: rejected)
qed


section \<open>What the tools forward to the SDK\<close>

text \<open>
  C1. Order placement with all seven arguments supplied: every order request it forwards
  is the dictionary with variety \<^verbatim>\<open>NORMAL\<close>, exchange \<^verbatim>\<open>NSE\<close>, duration \<^verbatim>\<open>DAY\<close>,
  squareoff \<^verbatim>\<open>0\<close> and stoploss \<^verbatim>\<open>0\<close>, the symbol under \<^verbatim>\<open>tradingsymbol\<close> and the other six
  arguments under their own names, unchanged; and whenever the session is established,
  that request is forwarded, on the instance of the session, as the one further call.
\<close>

theorem place_order_request:
  "(\<forall>h p. PlaceOrderFullResponse h p \<in> set (drop (length (calls s))
        (calls (snd (place_order sdk cfg symbol symboltoken transactiontype quantity
           (Some ordertype) (Some producttype) (Some price) s)))) \<longrightarrow>
      p = PDict
       [(''variety'', PStr ''NORMAL''),
        (''tradingsymbol'', symbol),
        (''symboltoken'', symboltoken),
        (''transactiontype'', transactiontype),
        (''exchange'', PStr ''NSE''),
        (''ordertype'', ordertype),
        (''producttype'', producttype),
        (''duration'', PStr ''DAY''),
        (''price'', price),
        (''squareoff'', PStr ''0''),
        (''stoploss'', PStr ''0''),
        (''quantity'', quantity)])
   \<and> (\<forall>h s1. get_smart_api_session sdk cfg s = (Inr h, s1) \<longrightarrow>
        calls (snd (place_order sdk cfg symbol symboltoken transactiontype quantity
           (Some ordertype) (Some producttype) (Some price) s)) =
        calls s1 @ [PlaceOrderFullResponse h (PDict
       [(''variety'', PStr ''NORMAL''),
        (''tradingsymbol'', symbol),
        (''symboltoken'', symboltoken),
        (''transactiontype'', transactiontype),
        (''exchange'', PStr ''NSE''),
        (''ordertype'', ordertype),
        (''producttype'', producttype),
        (''duration'', PStr ''DAY''),
        (''price'', price),
        (''squareoff'', PStr ''0''),
        (''stoploss'', PStr ''0''),
        (''quantity'', quantity)])])"
proof (intro conjI allI impI)
  fix h p
  let ?sess = "get_smart_api_session sdk cfg s"
  assume mem: "PlaceOrderFullResponse h p \<in> set (drop (length (calls s))
        (calls (snd (place_order sdk cfg symbol symboltoken transactiontype quantity
           (Some ordertype) (Some producttype) (Some price) s))))"
  have not_session: "PlaceOrderFullResponse h p \<notin> set (drop (length (calls s)) (calls (snd ?sess)))"
    using session_calls_kind [of "PlaceOrderFullResponse h p" s sdk cfg] by auto
  from mem not_session session_calls_length [of s sdk cfg]
  have "PlaceOrderFullResponse h p \<in> set (case fst ?sess of Inl e \<Rightarrow> []
      | Inr h' \<Rightarrow> [PlaceOrderFullResponse h' (PDict
       [(''variety'', PStr ''NORMAL''),
        (''tradingsymbol'', symbol),
        (''symboltoken'', symboltoken),
        (''transactiontype'', transactiontype),
        (''exchange'', PStr ''NSE''),
        (''ordertype'', ordertype),
        (''producttype'', producttype),
        (''duration'', PStr ''DAY''),
        (''price'', price),
        (''squareoff'', PStr ''0''),
        (''stoploss'', PStr ''0''),
        (''quantity'', quantity)])])"
    by (simp add: place_order_calls default_arg_def)
  then show "p = PDict
       [(''variety'', PStr ''NORMAL''),
        (''tradingsymbol'', symbol),
        (''symboltoken'', symboltoken),
        (''transactiontype'', transactiontype),
        (''exchange'', PStr ''NSE''),
        (''ordertype'', ordertype),
        (''producttype'', producttype),
        (''duration'', PStr ''DAY''),
        (''price'', price),
        (''squareoff'', PStr ''0''),
        (''stoploss'', PStr ''0''),
        (''quantity'', quantity)]"
    by (cases "fst ?sess") auto
next
  fix h s1
  assume "get_smart_api_session sdk cfg s = (Inr h, s1)"
  then show "calls (snd (place_order sdk cfg symbol symboltoken transactiontype quantity
           (Some ordertype) (Some producttype) (Some price) s)) =
        calls s1 @ [PlaceOrderFullResponse h (PDict
       [(''variety'', PStr ''NORMAL''),
        (''tradingsymbol'', symbol),
        (''symboltoken'', symboltoken),
        (''transactiontype'', transactiontype),
        (''exchange'', PStr ''NSE''),
        (''ordertype'', ordertype),
        (''producttype'', producttype),
        (''duration'', PStr ''DAY''),
        (''price'', price),
        (''squareoff'', PStr ''0''),
        (''stoploss'', PStr ''0''),
        (''quantity'', quantity)])]"
    by (simp add: place_order_calls default_arg_def)
qed

theorem place_order_request_witness:
  "PlaceOrderFullResponse 0 (PDict
       [(''variety'', PStr ''NORMAL''),
        (''tradingsymbol'', PStr ''INFY''),
        (''symboltoken'', PStr ''1594''),
        (''transactiontype'', PStr ''BUY''),
        (''exchange'', PStr ''NSE''),
        (''ordertype'', PStr ''MARKET''),
        (''producttype'', PStr ''INTRADAY''),
        (''duration'', PStr ''DAY''),
        (''price'', PFloat 1520.5),
        (''squareoff'', PStr ''0''),
        (''stoploss'', PStr ''0''),
        (''quantity'', PInt 5)])
     \<in> set (calls (snd (place_order mock_sdk mock_config (PStr ''INFY'') (PStr ''1594'')
           (PStr ''BUY'') (PInt 5) (Some (PStr ''MARKET'')) (Some (PStr ''INTRADAY''))
           (Some (PFloat 1520.5)) (start All_ok))))
   \<and> calls (snd (place_order mock_sdk mock_config (PStr ''INFY'') (PStr ''1594'')
           (PStr ''BUY'') (PInt 5) (Some (PStr ''MARKET'')) (Some (PStr ''INTRADAY''))
           (Some (PFloat 1520.5)) (start All_ok))) =
      [SmartConnect_init 0 (PStr ''key''), TOTP_now (PStr ''JBSWY3DPEHPK3PXP''),
       GenerateSession 0 (PStr ''A100'') (PStr ''1234'') (PStr ''492039''),
       PlaceOrderFullResponse 0 (PDict
       [(''variety'', PStr ''NORMAL''),
        (''tradingsymbol'', PStr ''INFY''),
        (''symboltoken'', PStr ''1594''),
        (''transactiontype'', PStr ''BUY''),
        (''exchange'', PStr ''NSE''),
        (''ordertype'', PStr ''MARKET''),
        (''producttype'', PStr ''INTRADAY''),
        (''duration'', PStr ''DAY''),
        (''price'', PFloat 1520.5),
        (''squareoff'', PStr ''0''),
        (''stoploss'', PStr ''0''),
        (''quantity'', PInt 5)])]"
proof -
  note run = place_order_request [where sdk = mock_sdk and cfg = mock_config and s = "start All_ok"
      and symbol = "PStr ''INFY''" and symboltoken = "PStr ''1594''"
      and transactiontype = "PStr ''BUY''" and quantity = "PInt 5"
      and ordertype = "PStr ''MARKET''" and producttype = "PStr ''INTRADAY''"
      and price = "PFloat 1520.5", THEN conjunct2, rule_format, OF mock_session_All_ok]
  show ?thesis unfolding run by simp
qed

text \<open>
  C6. Candle retrieval with both optional arguments left out: every query it forwards has
  exchange \<^verbatim>\<open>NSE\<close>, symboltoken \<^verbatim>\<open>3045\<close>, interval \<^verbatim>\<open>ONE_MINUTE\<close>, and the start and end
  time of the caller under \<^verbatim>\<open>fromdate\<close> and \<^verbatim>\<open>todate\<close>, whatever values they are; and
  whenever the session is established, that query is forwarded as the one further call.
\<close>

theorem get_candle_data_query:
  "(\<forall>h q. GetCandleData h q \<in> set (drop (length (calls s))
        (calls (snd (get_candle_data sdk cfg start_time end_time None None s)))) \<longrightarrow>
      q = PDict
       [(''exchange'', PStr ''NSE''),
        (''symboltoken'', PStr ''3045''),
        (''interval'', PStr ''ONE_MINUTE''),
        (''fromdate'', start_time),
        (''todate'', end_time)])
   \<and> (\<forall>h s1. get_smart_api_session sdk cfg s = (Inr h, s1) \<longrightarrow>
        calls (snd (get_candle_data sdk cfg start_time end_time None None s)) =
        calls s1 @ [GetCandleData h (PDict
       [(''exchange'', PStr ''NSE''),
        (''symboltoken'', PStr ''3045''),
        (''interval'', PStr ''ONE_MINUTE''),
        (''fromdate'', start_time),
        (''todate'', end_time)])])"
proof (intro conjI allI impI)
  fix h q
  let ?sess = "get_smart_api_session sdk cfg s"
  assume mem: "GetCandleData h q \<in> set (drop (length (calls s))
        (calls (snd (get_candle_data sdk cfg start_time end_time None None s))))"
  have not_session: "GetCandleData h q \<notin> set (drop (length (calls s)) (calls (snd ?sess)))"
    using session_calls_kind [of "GetCandleData h q" s sdk cfg] by auto
  from mem not_session session_calls_length [of s sdk cfg]
  have "GetCandleData h q \<in> set (case fst ?sess of Inl e \<Rightarrow> []
      | Inr h' \<Rightarrow> [GetCandleData h' (PDict
       [(''exchange'', PStr ''NSE''),
        (''symboltoken'', PStr ''3045''),
        (''interval'', PStr ''ONE_MINUTE''),
        (''fromdate'', start_time),
        (''todate'', end_time)])])"
    by (simp add: get_candle_data_calls default_arg_def)
  then show "q = PDict
       [(''exchange'', PStr ''NSE''),
        (''symboltoken'', PStr ''3045''),
        (''interval'', PStr ''ONE_MINUTE''),
        (''fromdate'', start_time),
        (''todate'', end_time)]"
    by (cases "fst ?sess") auto
next
  fix h s1
  assume "get_smart_api_session sdk cfg s = (Inr h, s1)"
  then show "calls (snd (get_candle_data sdk cfg start_time end_time None None s)) =
        calls s1 @ [GetCandleData h (PDict
       [(''exchange'', PStr ''NSE''),
        (''symboltoken'', PStr ''3045''),
        (''interval'', PStr ''ONE_MINUTE''),
        (''fromdate'', start_time),
        (''todate'', end_time)])]"
    by (simp add: get_candle_data_calls default_arg_def)
qed

theorem get_candle_data_query_witness:
  "calls (snd (get_candle_data mock_sdk mock_config (PStr ''not a date'') (PInt (- 7))
       None None (start All_ok))) =
      [SmartConnect_init 0 (PStr ''key''), TOTP_now (PStr ''JBSWY3DPEHPK3PXP''),
       GenerateSession 0 (PStr ''A100'') (PStr ''1234'') (PStr ''492039''),
       GetCandleData 0 (PDict
       [(''exchange'', PStr ''NSE''),
        (''symboltoken'', PStr ''3045''),
        (''interval'', PStr ''ONE_MINUTE''),
        (''fromdate'', PStr ''not a date''),
        (''todate'', PInt (- 7))])]"
proof -
  note run = get_candle_data_query [where sdk = mock_sdk and cfg = mock_config and s = "start All_ok"
      and start_time = "PStr ''not a date''" and end_time = "PInt (- 7)",
      THEN conjunct2, rule_format, OF mock_session_All_ok]
  show ?thesis unfolding run by simp
qed

section \<open>No state between invocations\<close>

subsection \<open>History-free programs\<close>

lemma seq_cases:
  "seq m f s = (case fst (m s) of Inl e \<Rightarrow> (Inl e, snd (m s)) | Inr a \<Rightarrow> f a (snd (m s)))"
  by (simp add: seq_def split: prod.split sum.split)

lemma try_except_cases:
  "try_except m h s =
     (case fst (m s) of Inl e \<Rightarrow> h e (snd (m s)) | Inr a \<Rightarrow> (Inr a, snd (m s)))"
  by (simp add: try_except_def split: prod.split sum.split)

lemma history_free_pure: "history_free (\<lambda>s. (r, s))"
  by (simp add: history_free_def)

lemma history_free_return: "history_free (return a)"
  by (simp add: history_free_def return_def)

lemma history_free_raise: "history_free (raise e)"
  by (simp add: history_free_def raise_def)

lemma history_free_call: "history_free (call sdk c)"
  by (simp add: history_free_def call_def same_world_def split: prod.split)

lemma history_free_new_object: "history_free new_object"
  by (simp add: history_free_def new_object_def same_world_def)

lemma history_free_logger_error: "history_free (logger_error x)"
  by (simp add: history_free_def logger_error_def same_world_def)

lemma history_free_logger_exception: "history_free (logger_exception x)"
  by (simp add: history_free_def logger_exception_def same_world_def)

lemma history_free_seq:
  assumes m: "history_free m" and f: "\<And>a. history_free (f a)"
  shows "history_free (seq m f)"
  unfolding history_free_def
proof (intro allI impI)
  fix s t :: "'a state"
  assume st: "same_world s t"
  from m st have res: "fst (m s) = fst (m t)" and sw: "same_world (snd (m s)) (snd (m t))"
    by (simp_all add: history_free_def)
  from m st obtain cs ls where app:
    "calls (snd (m s)) = calls s @ cs" "calls (snd (m t)) = calls t @ cs"
    "logs (snd (m s)) = logs s @ ls" "logs (snd (m t)) = logs t @ ls"
    unfolding history_free_def by blast
  show "fst (seq m f s) = fst (seq m f t) \<and> same_world (snd (seq m f s)) (snd (seq m f t)) \<and>
        (\<exists>cs ls. calls (snd (seq m f s)) = calls s @ cs \<and> calls (snd (seq m f t)) = calls t @ cs \<and>
                 logs (snd (seq m f s)) = logs s @ ls \<and> logs (snd (seq m f t)) = logs t @ ls)"
  proof (cases "fst (m s)")
    case (Inl e)
    with res have "fst (m t) = Inl e" by simp
    with Inl sw app show ?thesis by (simp add: seq_cases)
  next
    case (Inr a)
    from f [of a] sw have
      r2: "fst (f a (snd (m s))) = fst (f a (snd (m t)))" and
      sw2: "same_world (snd (f a (snd (m s)))) (snd (f a (snd (m t))))"
      by (simp_all add: history_free_def)
    from f [of a] sw obtain cs' ls' where app2:
      "calls (snd (f a (snd (m s)))) = calls (snd (m s)) @ cs'"
      "calls (snd (f a (snd (m t)))) = calls (snd (m t)) @ cs'"
      "logs (snd (f a (snd (m s)))) = logs (snd (m s)) @ ls'"
      "logs (snd (f a (snd (m t)))) = logs (snd (m t)) @ ls'"
      unfolding history_free_def by blast
    from Inr res have "fst (m t) = Inr a" by simp
    with Inr r2 sw2 app app2 show ?thesis by (simp add: seq_cases)
  qed
qed

lemma history_free_try_except:
  assumes m: "history_free m" and h: "\<And>e. history_free (h e)"
  shows "history_free (try_except m h)"
  unfolding history_free_def
proof (intro allI impI)
  fix s t :: "'a state"
  assume st: "same_world s t"
  from m st have res: "fst (m s) = fst (m t)" and sw: "same_world (snd (m s)) (snd (m t))"
    by (simp_all add: history_free_def)
  from m st obtain cs ls where app:
    "calls (snd (m s)) = calls s @ cs" "calls (snd (m t)) = calls t @ cs"
    "logs (snd (m s)) = logs s @ ls" "logs (snd (m t)) = logs t @ ls"
    unfolding history_free_def by blast
  show "fst (try_except m h s) = fst (try_except m h t) \<and>
        same_world (snd (try_except m h s)) (snd (try_except m h t)) \<and>
        (\<exists>cs ls. calls (snd (try_except m h s)) = calls s @ cs \<and>
                 calls (snd (try_except m h t)) = calls t @ cs \<and>
                 logs (snd (try_except m h s)) = logs s @ ls \<and>
                 logs (snd (try_except m h t)) = logs t @ ls)"
  proof (cases "fst (m s)")
    case (Inr a)
    with res have "fst (m t) = Inr a" by simp
    with Inr sw app show ?thesis by (simp add: try_except_cases)
  next
    case (Inl e)
    from h [of e] sw have
      r2: "fst (h e (snd (m s))) = fst (h e (snd (m t)))" and
      sw2: "same_world (snd (h e (snd (m s)))) (snd (h e (snd (m t))))"
      by (simp_all add: history_free_def)
    from h [of e] sw obtain cs' ls' where app2:
      "calls (snd (h e (snd (m s)))) = calls (snd (m s)) @ cs'"
      "calls (snd (h e (snd (m t)))) = calls (snd (m t)) @ cs'"
      "logs (snd (h e (snd (m s)))) = logs (snd (m s)) @ ls'"
      "logs (snd (h e (snd (m t)))) = logs (snd (m t)) @ ls'"
      unfolding history_free_def by blast
    from Inl res have "fst (m t) = Inl e" by simp
    with Inl r2 sw2 app app2 show ?thesis by (simp add: try_except_cases)
  qed
qed

lemmas history_free_intros = history_free_seq history_free_try_except history_free_pure
  history_free_return history_free_raise history_free_call history_free_new_object
  history_free_logger_error history_free_logger_exception

lemma history_free_authenticate: "history_free (authenticate sdk cfg smartApi)"
  unfolding authenticate_def by (intro history_free_intros) (simp add: history_free_intros)

lemma history_free_session: "history_free (get_smart_api_session sdk cfg)"
  unfolding get_smart_api_session_def
  by (intro history_free_intros history_free_authenticate)

lemma history_free_get_proftfolio: "history_free (get_proftfolio sdk cfg)"
  unfolding get_proftfolio_def by (intro history_free_intros history_free_session)

lemma history_free_get_candle_data:
  "history_free (get_candle_data sdk cfg start_time end_time symboltoken_arg interval_arg)"
  unfolding get_candle_data_def Let_def by (intro history_free_intros history_free_session)

lemma history_free_place_order:
  "history_free (place_order sdk cfg symbol symboltoken transactiontype quantity
     ordertype_arg producttype_arg price_arg)"
  unfolding place_order_def Let_def by (intro history_free_intros history_free_session)

lemma history_free_cancel_order: "history_free (cancel_order sdk cfg order_id variety_arg)"
  unfolding cancel_order_def Let_def by (intro history_free_intros history_free_session)

lemma history_free_get_order_book: "history_free (get_order_book sdk cfg)"
  unfolding get_order_book_def by (intro history_free_intros history_free_session)

lemma history_free_invoke: "history_free (invoke sdk cfg tc)"
  by (cases tc)
    (simp_all add: invoke_def history_free_get_proftfolio history_free_get_candle_data
       history_free_place_order history_free_cancel_order history_free_get_order_book)


subsection \<open>The handshake precedes the data call\<close>

lemma handshake_prefix:
  assumes tool: "calls s' = calls (snd (get_smart_api_session sdk cfg s)) @
      (case fst (get_smart_api_session sdk cfg s) of Inl e \<Rightarrow> [] | Inr h \<Rightarrow> [C h])"
    and inst: "\<And>h. instance_of (C h) = Some h"
  shows "\<exists>n totp c. 0 < n \<and> instance_of c = Some (next_obj s) \<and>
     calls s' = calls s @ take n
       [SmartConnect_init (next_obj s) (api_key cfg), TOTP_now (token cfg),
        GenerateSession (next_obj s) (username cfg) (pwd cfg) totp, c]"
proof (cases "get_smart_api_session sdk cfg s")
  case (Pair r s1)
  show ?thesis
  proof (cases r)
    case (Inl e)
    obtain n totp where n: "0 < n" "n \<le> 3" and
      sess: "calls (snd (get_smart_api_session sdk cfg s)) = calls s @ take n
        [SmartConnect_init (next_obj s) (api_key cfg), TOTP_now (token cfg),
         GenerateSession (next_obj s) (username cfg) (pwd cfg) totp]"
      using session_calls [of sdk cfg s] by blast
    from n have "n = 1 \<or> n = 2 \<or> n = 3" by arith
    then have "take n
        [SmartConnect_init (next_obj s) (api_key cfg), TOTP_now (token cfg),
         GenerateSession (next_obj s) (username cfg) (pwd cfg) totp, C (next_obj s)] =
      take n
        [SmartConnect_init (next_obj s) (api_key cfg), TOTP_now (token cfg),
         GenerateSession (next_obj s) (username cfg) (pwd cfg) totp]"
      by auto
    with tool sess Pair Inl have "calls s' = calls s @ take n
        [SmartConnect_init (next_obj s) (api_key cfg), TOTP_now (token cfg),
         GenerateSession (next_obj s) (username cfg) (pwd cfg) totp, C (next_obj s)]"
      by simp
    with n(1) inst show ?thesis by blast
  next
    case (Inr h)
    with Pair have run: "get_smart_api_session sdk cfg s = (Inr h, s1)" by simp
    from session_Inr [OF run] obtain totp where h: "h = next_obj s" and
      sess: "calls s1 = calls s @
        [SmartConnect_init h (api_key cfg), TOTP_now (token cfg),
         GenerateSession h (username cfg) (pwd cfg) totp]"
      by blast
    from tool run sess h have "calls s' = calls s @ take 4
        [SmartConnect_init (next_obj s) (api_key cfg), TOTP_now (token cfg),
         GenerateSession (next_obj s) (username cfg) (pwd cfg) totp, C (next_obj s)]"
      by simp
    with inst show ?thesis by (intro exI [of _ 4] exI [of _ totp] exI [of _ "C (next_obj s)"]) simp
  qed
qed

lemma invoke_handshake:
  "\<exists>n totp c. 0 < n \<and> instance_of c = Some (next_obj s) \<and>
     calls (snd (invoke sdk cfg tc s)) = calls s @ take n
       [SmartConnect_init (next_obj s) (api_key cfg), TOTP_now (token cfg),
        GenerateSession (next_obj s) (username cfg) (pwd cfg) totp, c]"
proof (cases tc)
  case Get_proftfolio
  then show ?thesis
    using handshake_prefix [where s = s and sdk = sdk and cfg = cfg, OF get_proftfolio_calls]
    by (simp add: invoke_def)
next
  case (Get_candle_data start_time end_time symboltoken_arg interval_arg)
  then show ?thesis
    using handshake_prefix [where s = s and sdk = sdk and cfg = cfg,
        OF get_candle_data_calls [where start_time = start_time and end_time = end_time
          and symboltoken_arg = symboltoken_arg and interval_arg = interval_arg]]
    by (simp add: invoke_def)
next
  case (Place_order symbol symboltoken transactiontype quantity ordertype_arg producttype_arg
      price_arg)
  then show ?thesis
    using handshake_prefix [where s = s and sdk = sdk and cfg = cfg,
        OF place_order_calls [where symbol = symbol and symboltoken = symboltoken
          and transactiontype = transactiontype and quantity = quantity
          and ordertype_arg = ordertype_arg and producttype_arg = producttype_arg
          and price_arg = price_arg]]
    by (simp add: invoke_def)
next
  case (Cancel_order order_id variety_arg)
  then show ?thesis
    using handshake_prefix [where s = s and sdk = sdk and cfg = cfg,
        OF cancel_order_calls [where order_id = order_id and variety_arg = variety_arg]]
    by (simp add: invoke_def)
next
  case Get_order_book
  then show ?thesis
    using handshake_prefix [where s = s and sdk = sdk and cfg = cfg, OF get_order_book_calls]
    by (simp add: invoke_def)
qed

lemma invoke_next_obj: "next_obj (snd (invoke sdk cfg tc s)) = Suc (next_obj s)"
  by (cases tc)
    (simp_all add: invoke_def get_proftfolio_next_obj get_candle_data_next_obj
       place_order_next_obj cancel_order_next_obj get_order_book_next_obj session_next_obj)

lemma session_fst_Inr:
  assumes "fst (get_smart_api_session sdk cfg s) = Inr h"
  shows "h = next_obj s"
proof -
  obtain s1 where "get_smart_api_session sdk cfg s = (Inr h, s1)"
    using assms by (cases "get_smart_api_session sdk cfg s") simp
  then show ?thesis by (simp add: session_Inr)
qed

lemma data_call_on_new_instance:
  assumes "calls s' = calls (snd (get_smart_api_session sdk cfg s)) @
      (case fst (get_smart_api_session sdk cfg s) of Inl e \<Rightarrow> [] | Inr h \<Rightarrow> [C h])"
  shows "calls s' = calls (snd (get_smart_api_session sdk cfg s)) @
      (case fst (get_smart_api_session sdk cfg s) of Inl e \<Rightarrow> [] | Inr h \<Rightarrow> [C (next_obj s)])"
proof (cases "fst (get_smart_api_session sdk cfg s)")
  case (Inl e)
  with assms show ?thesis by simp
next
  case (Inr h)
  with assms session_fst_Inr [OF Inr] show ?thesis by simp
qed

lemma invoke_calls:
  "\<exists>c. data_method tc c \<and> instance_of c = Some (next_obj s) \<and>
     calls (snd (invoke sdk cfg tc s)) = calls (snd (get_smart_api_session sdk cfg s)) @
       (case fst (get_smart_api_session sdk cfg s) of Inl e \<Rightarrow> [] | Inr h \<Rightarrow> [c])"
proof (cases tc)
  case Get_proftfolio
  then show ?thesis
    using data_call_on_new_instance [where s = s and sdk = sdk and cfg = cfg,
        OF get_proftfolio_calls]
    by (intro exI [of _ "Holding (next_obj s)"]) (simp add: invoke_def data_method_def)
next
  case (Get_candle_data start_time end_time symboltoken_arg interval_arg)
  then show ?thesis
    using data_call_on_new_instance [where s = s and sdk = sdk and cfg = cfg,
        OF get_candle_data_calls [where start_time = start_time and end_time = end_time
          and symboltoken_arg = symboltoken_arg and interval_arg = interval_arg]]
    by (intro exI [of _ "GetCandleData (next_obj s) (PDict
       [(''exchange'', PStr ''NSE''),
        (''symboltoken'', default_arg (PStr ''3045'') symboltoken_arg),
        (''interval'', default_arg (PStr ''ONE_MINUTE'') interval_arg),
        (''fromdate'', start_time),
        (''todate'', end_time)])"]) (simp add: invoke_def data_method_def)
next
  case (Place_order symbol symboltoken transactiontype quantity ordertype_arg producttype_arg
      price_arg)
  then show ?thesis
    using data_call_on_new_instance [where s = s and sdk = sdk and cfg = cfg,
        OF place_order_calls [where symbol = symbol and symboltoken = symboltoken
          and transactiontype = transactiontype and quantity = quantity
          and ordertype_arg = ordertype_arg and producttype_arg = producttype_arg
          and price_arg = price_arg]]
    by (intro exI [of _ "PlaceOrderFullResponse (next_obj s) (PDict
       [(''variety'', PStr ''NORMAL''),
        (''tradingsymbol'', symbol),
        (''symboltoken'', symboltoken),
        (''transactiontype'', transactiontype),
        (''exchange'', PStr ''NSE''),
        (''ordertype'', default_arg (PStr ''LIMIT'') ordertype_arg),
        (''producttype'', default_arg (PStr ''DELIVERY'') producttype_arg),
        (''duration'', PStr ''DAY''),
        (''price'', default_arg (PInt 0) price_arg),
        (''squareoff'', PStr ''0''),
        (''stoploss'', PStr ''0''),
        (''quantity'', quantity)])"]) (simp add: invoke_def data_method_def)
next
  case (Cancel_order order_id variety_arg)
  then show ?thesis
    using data_call_on_new_instance [where s = s and sdk = sdk and cfg = cfg,
        OF cancel_order_calls [where order_id = order_id and variety_arg = variety_arg]]
    by (intro exI [of _ "CancelOrder (next_obj s) order_id
          (default_arg (PStr ''NORMAL'') variety_arg)"]) (simp add: invoke_def data_method_def)
next
  case Get_order_book
  then show ?thesis
    using data_call_on_new_instance [where s = s and sdk = sdk and cfg = cfg,
        OF get_order_book_calls]
    by (intro exI [of _ "OrderBook (next_obj s)"]) (simp add: invoke_def data_method_def)
qed

lemma session_calls_then:
  "calls (snd (get_smart_api_session sdk cfg s)) @
     (case fst (get_smart_api_session sdk cfg s) of Inl e \<Rightarrow> [] | Inr h \<Rightarrow> [c]) =
   calls s @
     (case sdk (world s) (SmartConnect_init (next_obj s) (api_key cfg)) of
        (Inl e, w1) \<Rightarrow> [SmartConnect_init (next_obj s) (api_key cfg)]
      | (Inr u, w1) \<Rightarrow>
          (case sdk w1 (TOTP_now (token cfg)) of
             (Inl e, w2) \<Rightarrow> [SmartConnect_init (next_obj s) (api_key cfg), TOTP_now (token cfg)]
           | (Inr totp, w2) \<Rightarrow>
               [SmartConnect_init (next_obj s) (api_key cfg), TOTP_now (token cfg),
                GenerateSession (next_obj s) (username cfg) (pwd cfg) totp] @
               (case fst (get_smart_api_session sdk cfg s) of Inl e \<Rightarrow> [] | Inr h \<Rightarrow> [c])))"
proof (cases "sdk (world s) (SmartConnect_init (next_obj s) (api_key cfg))")
  case init: (Pair r0 w1)
  show ?thesis
  proof (cases r0)
    case (Inl e)
    with init show ?thesis by (simp add: session_init_raises)
  next
    case (Inr u)
    show ?thesis
    proof (cases "sdk w1 (TOTP_now (token cfg))")
      case totp: (Pair r1 w2)
      show ?thesis
      proof (cases r1)
        case (Inl e)
        with init \<open>r0 = Inr u\<close> totp show ?thesis by (simp add: session_totp_raises)
      next
        case (Inr t)
        with init \<open>r0 = Inr u\<close> totp show ?thesis by (simp add: session_calls_eq)
      qed
    qed
  qed
qed


lemma session_data_call:
  "(case fst (get_smart_api_session sdk cfg s) of Inl e \<Rightarrow> [] | Inr h \<Rightarrow> [c]) =
     (case sdk (world s) (SmartConnect_init (next_obj s) (api_key cfg)) of
        (Inl e, w1) \<Rightarrow> []
      | (Inr u, w1) \<Rightarrow>
          (case sdk w1 (TOTP_now (token cfg)) of
             (Inl e, w2) \<Rightarrow> []
           | (Inr totp, w2) \<Rightarrow>
               (case sdk w2 (GenerateSession (next_obj s) (username cfg) (pwd cfg) totp) of
                  (Inl e, w3) \<Rightarrow> []
                | (Inr data, w3) \<Rightarrow>
                    (case py_getitem data ''status'' of
                       Inl e \<Rightarrow> []
                     | Inr status \<Rightarrow> if py_eq_False status then [] else [c]))))"
  by (simp add: get_smart_api_session_def authenticate_def prog_defs
        split: prod.split sum.split)

lemma session_calls_exact:
  "calls (snd (get_smart_api_session sdk cfg s)) @
     (case fst (get_smart_api_session sdk cfg s) of Inl e \<Rightarrow> [] | Inr h \<Rightarrow> [c]) =
   calls s @
       (case sdk (world s) (SmartConnect_init (next_obj s) (api_key cfg)) of
           (Inl e, w1) \<Rightarrow> [SmartConnect_init (next_obj s) (api_key cfg)]
         | (Inr u, w1) \<Rightarrow>
             (case sdk w1 (TOTP_now (token cfg)) of
                (Inl e, w2) \<Rightarrow>
                  [SmartConnect_init (next_obj s) (api_key cfg), TOTP_now (token cfg)]
              | (Inr totp, w2) \<Rightarrow>
                  [SmartConnect_init (next_obj s) (api_key cfg), TOTP_now (token cfg),
                   GenerateSession (next_obj s) (username cfg) (pwd cfg) totp] @
                  (case sdk w2 (GenerateSession (next_obj s) (username cfg) (pwd cfg) totp) of
                     (Inl e, w3) \<Rightarrow> []
                   | (Inr data, w3) \<Rightarrow>
                       (case py_getitem data ''status'' of
                          Inl e \<Rightarrow> []
                        | Inr status \<Rightarrow> if py_eq_False status then [] else [c]))))"
proof (cases "sdk (world s) (SmartConnect_init (next_obj s) (api_key cfg))")
  case init: (Pair r0 w1)
  show ?thesis
  proof (cases r0)
    case (Inl e)
    with init show ?thesis by (simp add: session_init_raises)
  next
    case (Inr u)
    show ?thesis
    proof (cases "sdk w1 (TOTP_now (token cfg))")
      case totp: (Pair r1 w2)
      show ?thesis
      proof (cases r1)
        case (Inl e)
        with init \<open>r0 = Inr u\<close> totp show ?thesis by (simp add: session_totp_raises)
      next
        case (Inr t)
        with init \<open>r0 = Inr u\<close> totp show ?thesis
          by (simp add: session_calls_eq session_data_call)
      qed
    qed
  qed
qed

lemma invoke_calls_exact:
  "\<exists>c. data_method tc c \<and> instance_of c = Some (next_obj s) \<and>
     calls (snd (invoke sdk cfg tc s)) = calls s @
       (case sdk (world s) (SmartConnect_init (next_obj s) (api_key cfg)) of
           (Inl e, w1) \<Rightarrow> [SmartConnect_init (next_obj s) (api_key cfg)]
         | (Inr u, w1) \<Rightarrow>
             (case sdk w1 (TOTP_now (token cfg)) of
                (Inl e, w2) \<Rightarrow>
                  [SmartConnect_init (next_obj s) (api_key cfg), TOTP_now (token cfg)]
              | (Inr totp, w2) \<Rightarrow>
                  [SmartConnect_init (next_obj s) (api_key cfg), TOTP_now (token cfg),
                   GenerateSession (next_obj s) (username cfg) (pwd cfg) totp] @
                  (case sdk w2 (GenerateSession (next_obj s) (username cfg) (pwd cfg) totp) of
                     (Inl e, w3) \<Rightarrow> []
                   | (Inr data, w3) \<Rightarrow>
                       (case py_getitem data ''status'' of
                          Inl e \<Rightarrow> []
                        | Inr status \<Rightarrow> if py_eq_False status then [] else [c]))))"
proof -
  obtain c where c: "data_method tc c" "instance_of c = Some (next_obj s)" and
    run: "calls (snd (invoke sdk cfg tc s)) = calls (snd (get_smart_api_session sdk cfg s)) @
       (case fst (get_smart_api_session sdk cfg s) of Inl e \<Rightarrow> [] | Inr h \<Rightarrow> [c])"
    using invoke_calls [of tc s sdk cfg] by blast
  from run have "calls (snd (invoke sdk cfg tc s)) = calls s @
       (case sdk (world s) (SmartConnect_init (next_obj s) (api_key cfg)) of
           (Inl e, w1) \<Rightarrow> [SmartConnect_init (next_obj s) (api_key cfg)]
         | (Inr u, w1) \<Rightarrow>
             (case sdk w1 (TOTP_now (token cfg)) of
                (Inl e, w2) \<Rightarrow>
                  [SmartConnect_init (next_obj s) (api_key cfg), TOTP_now (token cfg)]
              | (Inr totp, w2) \<Rightarrow>
                  [SmartConnect_init (next_obj s) (api_key cfg), TOTP_now (token cfg),
                   GenerateSession (next_obj s) (username cfg) (pwd cfg) totp] @
                  (case sdk w2 (GenerateSession (next_obj s) (username cfg) (pwd cfg) totp) of
                     (Inl e, w3) \<Rightarrow> []
                   | (Inr data, w3) \<Rightarrow>
                       (case py_getitem data ''status'' of
                          Inl e \<Rightarrow> []
                        | Inr status \<Rightarrow> if py_eq_False status then [] else [c]))))"
    by (simp only: session_calls_exact)
  with c show ?thesis by blast
qed

lemma invoke_calls_cooperating:
  assumes "sdk (world s) (SmartConnect_init (next_obj s) (api_key cfg)) = (Inr u, w1) \<and>
        sdk w1 (TOTP_now (token cfg)) = (Inr totp, w2) \<and>
        sdk w2 (GenerateSession (next_obj s) (username cfg) (pwd cfg) totp) = (Inr data, w3) \<and>
        py_getitem data ''status'' = Inr status \<and> \<not> py_eq_False status"
  shows "\<exists>c. data_method tc c \<and> instance_of c = Some (next_obj s) \<and>
     calls (snd (invoke sdk cfg tc s)) = calls s @
       [SmartConnect_init (next_obj s) (api_key cfg), TOTP_now (token cfg),
             GenerateSession (next_obj s) (username cfg) (pwd cfg) totp, c]"
proof -
  obtain c where c: "data_method tc c" "instance_of c = Some (next_obj s)" and
    run: "calls (snd (invoke sdk cfg tc s)) = calls s @
       (case sdk (world s) (SmartConnect_init (next_obj s) (api_key cfg)) of
           (Inl e, w1) \<Rightarrow> [SmartConnect_init (next_obj s) (api_key cfg)]
         | (Inr u, w1) \<Rightarrow>
             (case sdk w1 (TOTP_now (token cfg)) of
                (Inl e, w2) \<Rightarrow>
                  [SmartConnect_init (next_obj s) (api_key cfg), TOTP_now (token cfg)]
              | (Inr totp, w2) \<Rightarrow>
                  [SmartConnect_init (next_obj s) (api_key cfg), TOTP_now (token cfg),
                   GenerateSession (next_obj s) (username cfg) (pwd cfg) totp] @
                  (case sdk w2 (GenerateSession (next_obj s) (username cfg) (pwd cfg) totp) of
                     (Inl e, w3) \<Rightarrow> []
                   | (Inr data, w3) \<Rightarrow>
                       (case py_getitem data ''status'' of
                          Inl e \<Rightarrow> []
                        | Inr status \<Rightarrow> if py_eq_False status then [] else [c]))))"
    using invoke_calls_exact [of tc s sdk cfg] by blast
  from run assms have "calls (snd (invoke sdk cfg tc s)) = calls s @
       [SmartConnect_init (next_obj s) (api_key cfg), TOTP_now (token cfg),
             GenerateSession (next_obj s) (username cfg) (pwd cfg) totp, c]"
    by simp
  with c show ?thesis by blast
qed


lemma data_method_Get_proftfolio:
  "data_method Get_proftfolio c \<Longrightarrow> instance_of c = Some h \<Longrightarrow> c = Holding h"
  by (cases c) (simp_all add: data_method_def)

lemma data_method_Get_order_book:
  "data_method Get_order_book c \<Longrightarrow> instance_of c = Some h \<Longrightarrow> c = OrderBook h"
  by (cases c) (simp_all add: data_method_def)

lemma mock_after_portfolio:
  "snd (invoke mock_sdk mock_config Get_proftfolio (start All_ok)) =
     \<lparr>world = All_ok,
       calls = [SmartConnect_init 0 (PStr ''key''), TOTP_now (PStr ''JBSWY3DPEHPK3PXP''),
                GenerateSession 0 (PStr ''A100'') (PStr ''1234'') (PStr ''492039''), Holding 0],
       logs = [], next_obj = 1\<rparr>"
  by (simp add: invoke_def get_proftfolio_def run_defs)

text \<open>
  C8. An invocation of any of the five tools, from any state:
  \<^item> allocates exactly one SmartConnect instance;
  \<^item> when the constructor, the passcode computation and the login return and the login
    response has a status that does not equal \<^verbatim>\<open>False\<close>, makes exactly four calls: the
    constructor on the new instance, the passcode, the login on the new instance, and the
    data method of the tool on the new instance;
  \<^item> for every SDK, makes exactly the calls that the answers of the SDK determine: the
    constructor on the new instance; the passcode if the constructor returned; the login on
    the new instance if the passcode returned; the data method of the tool on the new
    instance if the login returned a response whose status is present and does not equal
    \<^verbatim>\<open>False\<close>; and no other call;
  \<^item> so its calls are a non-empty initial part of constructor, passcode, login, one call
    on the new instance;
  \<^item> is followed by an invocation that starts by constructing another instance;
  \<^item> is history-free: its result, the world it leaves, and the calls and log entries it
    appends depend on the world and on the number of the next object only, not on the
    calls and log entries that earlier invocations left behind. The state of a run has no
    component owned by the module.
\<close>

theorem tools_reauthenticate:
  "next_obj (snd (invoke sdk cfg tc s)) = Suc (next_obj s)
   \<and> (\<forall>u w1 totp w2 data w3 status.
        sdk (world s) (SmartConnect_init (next_obj s) (api_key cfg)) = (Inr u, w1) \<and>
        sdk w1 (TOTP_now (token cfg)) = (Inr totp, w2) \<and>
        sdk w2 (GenerateSession (next_obj s) (username cfg) (pwd cfg) totp) = (Inr data, w3) \<and>
        py_getitem data ''status'' = Inr status \<and> \<not> py_eq_False status \<longrightarrow>
        (\<exists>c. data_method tc c \<and> instance_of c = Some (next_obj s) \<and>
           calls (snd (invoke sdk cfg tc s)) = calls s @
             [SmartConnect_init (next_obj s) (api_key cfg), TOTP_now (token cfg),
             GenerateSession (next_obj s) (username cfg) (pwd cfg) totp, c]))
   \<and> (\<exists>c. data_method tc c \<and> instance_of c = Some (next_obj s) \<and>
        calls (snd (invoke sdk cfg tc s)) = calls s @
          (case sdk (world s) (SmartConnect_init (next_obj s) (api_key cfg)) of
           (Inl e, w1) \<Rightarrow> [SmartConnect_init (next_obj s) (api_key cfg)]
         | (Inr u, w1) \<Rightarrow>
             (case sdk w1 (TOTP_now (token cfg)) of
                (Inl e, w2) \<Rightarrow>
                  [SmartConnect_init (next_obj s) (api_key cfg), TOTP_now (token cfg)]
              | (Inr totp, w2) \<Rightarrow>
                  [SmartConnect_init (next_obj s) (api_key cfg), TOTP_now (token cfg),
                   GenerateSession (next_obj s) (username cfg) (pwd cfg) totp] @
                  (case sdk w2 (GenerateSession (next_obj s) (username cfg) (pwd cfg) totp) of
                     (Inl e, w3) \<Rightarrow> []
                   | (Inr data, w3) \<Rightarrow>
                       (case py_getitem data ''status'' of
                          Inl e \<Rightarrow> []
                        | Inr status \<Rightarrow> if py_eq_False status then [] else [c])))))
   \<and> (\<exists>n totp c. 0 < n \<and> instance_of c = Some (next_obj s) \<and>
        calls (snd (invoke sdk cfg tc s)) = calls s @ take n
          [SmartConnect_init (next_obj s) (api_key cfg), TOTP_now (token cfg),
           GenerateSession (next_obj s) (username cfg) (pwd cfg) totp, c])
   \<and> (\<exists>rest. calls (snd (invoke sdk cfg tc' (snd (invoke sdk cfg tc s)))) =
        calls (snd (invoke sdk cfg tc s)) @
          SmartConnect_init (Suc (next_obj s)) (api_key cfg) # rest)
   \<and> history_free (invoke sdk cfg tc)"
proof (intro conjI allI impI)
  show "next_obj (snd (invoke sdk cfg tc s)) = Suc (next_obj s)"
    by (rule invoke_next_obj)
  show "\<exists>c. data_method tc c \<and> instance_of c = Some (next_obj s) \<and>
           calls (snd (invoke sdk cfg tc s)) = calls s @
             [SmartConnect_init (next_obj s) (api_key cfg), TOTP_now (token cfg),
             GenerateSession (next_obj s) (username cfg) (pwd cfg) totp, c]"
    if "sdk (world s) (SmartConnect_init (next_obj s) (api_key cfg)) = (Inr u, w1) \<and>
        sdk w1 (TOTP_now (token cfg)) = (Inr totp, w2) \<and>
        sdk w2 (GenerateSession (next_obj s) (username cfg) (pwd cfg) totp) = (Inr data, w3) \<and>
        py_getitem data ''status'' = Inr status \<and> \<not> py_eq_False status"
    for u w1 totp w2 data w3 status
    using that by (rule invoke_calls_cooperating)
  show "\<exists>c. data_method tc c \<and> instance_of c = Some (next_obj s) \<and>
        calls (snd (invoke sdk cfg tc s)) = calls s @
          (case sdk (world s) (SmartConnect_init (next_obj s) (api_key cfg)) of
           (Inl e, w1) \<Rightarrow> [SmartConnect_init (next_obj s) (api_key cfg)]
         | (Inr u, w1) \<Rightarrow>
             (case sdk w1 (TOTP_now (token cfg)) of
                (Inl e, w2) \<Rightarrow>
                  [SmartConnect_init (next_obj s) (api_key cfg), TOTP_now (token cfg)]
              | (Inr totp, w2) \<Rightarrow>
                  [SmartConnect_init (next_obj s) (api_key cfg), TOTP_now (token cfg),
                   GenerateSession (next_obj s) (username cfg) (pwd cfg) totp] @
                  (case sdk w2 (GenerateSession (next_obj s) (username cfg) (pwd cfg) totp) of
                     (Inl e, w3) \<Rightarrow> []
                   | (Inr data, w3) \<Rightarrow>
                       (case py_getitem data ''status'' of
                          Inl e \<Rightarrow> []
                        | Inr status \<Rightarrow> if py_eq_False status then [] else [c]))))"
    by (rule invoke_calls_exact)
  show "\<exists>n totp c. 0 < n \<and> instance_of c = Some (next_obj s) \<and>
        calls (snd (invoke sdk cfg tc s)) = calls s @ take n
          [SmartConnect_init (next_obj s) (api_key cfg), TOTP_now (token cfg),
           GenerateSession (next_obj s) (username cfg) (pwd cfg) totp, c]"
    by (rule invoke_handshake)
  show "history_free (invoke sdk cfg tc)"
    by (rule history_free_invoke)
  let ?s1 = "snd (invoke sdk cfg tc s)"
  obtain n totp c where n: "0 < n" and
    second: "calls (snd (invoke sdk cfg tc' ?s1)) = calls ?s1 @ take n
          [SmartConnect_init (next_obj ?s1) (api_key cfg), TOTP_now (token cfg),
           GenerateSession (next_obj ?s1) (username cfg) (pwd cfg) totp, c]"
    using invoke_handshake [where s = ?s1 and sdk = sdk and cfg = cfg and tc = tc'] by blast
  from n obtain k where "n = Suc k" by (cases n) auto
  with second show "\<exists>rest. calls (snd (invoke sdk cfg tc' ?s1)) =
        calls ?s1 @ SmartConnect_init (Suc (next_obj s)) (api_key cfg) # rest"
    by (simp add: invoke_next_obj)
qed

theorem tools_reauthenticate_witness:
  "same_world (snd (invoke mock_sdk mock_config Get_proftfolio (start All_ok)))
     \<lparr>world = All_ok, calls = [], logs = [], next_obj = 1\<rparr>
   \<and> fst (invoke mock_sdk mock_config Get_order_book
          (snd (invoke mock_sdk mock_config Get_proftfolio (start All_ok)))) =
       fst (invoke mock_sdk mock_config Get_order_book
          \<lparr>world = All_ok, calls = [], logs = [], next_obj = 1\<rparr>)
   \<and> next_obj (snd (invoke mock_sdk mock_config Get_order_book
          (snd (invoke mock_sdk mock_config Get_proftfolio (start All_ok))))) = 2
   \<and> calls (snd (invoke mock_sdk mock_config Get_proftfolio (start All_ok))) =
       [SmartConnect_init 0 (PStr ''key''), TOTP_now (PStr ''JBSWY3DPEHPK3PXP''),
        GenerateSession 0 (PStr ''A100'') (PStr ''1234'') (PStr ''492039''), Holding 0]
   \<and> calls (snd (invoke mock_sdk mock_config Get_order_book
          (snd (invoke mock_sdk mock_config Get_proftfolio (start All_ok))))) =
       [SmartConnect_init 0 (PStr ''key''), TOTP_now (PStr ''JBSWY3DPEHPK3PXP''),
        GenerateSession 0 (PStr ''A100'') (PStr ''1234'') (PStr ''492039''), Holding 0,
        SmartConnect_init 1 (PStr ''key''), TOTP_now (PStr ''JBSWY3DPEHPK3PXP''),
        GenerateSession 1 (PStr ''A100'') (PStr ''1234'') (PStr ''492039''), OrderBook 1]"
proof -
  let ?begin = "start All_ok :: scenario state"
  let ?after = "snd (invoke mock_sdk mock_config Get_proftfolio ?begin)"
  let ?t = "\<lparr>world = All_ok, calls = [], logs = [], next_obj = 1\<rparr> :: scenario state"
  let ?login = "PDict [(''status'', PBool True), (''message'', PStr ''SUCCESS''),
                  (''data'', PDict [(''clientcode'', PStr ''A100'')])]"
  note first = tools_reauthenticate [where sdk = mock_sdk and cfg = mock_config
      and tc = Get_proftfolio and s = ?begin]
  note run = tools_reauthenticate [where sdk = mock_sdk and cfg = mock_config
      and tc = Get_order_book and s = ?after]
  have state: "world ?after = All_ok" "next_obj ?after = 1"
    by (simp_all add: mock_after_portfolio)
  have fields: "api_key mock_config = PStr ''key''" "username mock_config = PStr ''A100''"
    "pwd mock_config = PStr ''1234''" "token mock_config = PStr ''JBSWY3DPEHPK3PXP''"
    by (simp_all add: mock_config_def)
  have fresh: "world ?begin = All_ok" "next_obj ?begin = 0" "calls ?begin = []"
    by (simp_all add: start_def)
  have cooperates: "mock_sdk (world s) (SmartConnect_init (next_obj s) (api_key mock_config)) =
        (Inr PNone, All_ok) \<and>
      mock_sdk All_ok (TOTP_now (token mock_config)) = (Inr (PStr ''492039''), All_ok) \<and>
      mock_sdk All_ok (GenerateSession (next_obj s) (username mock_config) (pwd mock_config)
         (PStr ''492039'')) = (Inr ?login, All_ok) \<and>
      py_getitem ?login ''status'' = Inr (PBool True) \<and> \<not> py_eq_False (PBool True)"
    if "world s = All_ok" for s :: "scenario state"
    using that by (simp add: mock_sdk_def mock_config_def py_getitem_def py_eq_False_def)
  from first [THEN conjunct2, THEN conjunct1, rule_format, OF cooperates [OF fresh(1)]]
  obtain c0 where c0: "data_method Get_proftfolio c0"
      "instance_of c0 = Some (next_obj ?begin)" and
    calls0: "calls ?after = calls ?begin @
       [SmartConnect_init (next_obj ?begin) (api_key mock_config), TOTP_now (token mock_config),
        GenerateSession (next_obj ?begin) (username mock_config) (pwd mock_config) (PStr ''492039''), c0]"
    by blast
  from c0 have "c0 = Holding (next_obj ?begin)" by (rule data_method_Get_proftfolio)
  with calls0 have trace0: "calls ?after =
       [SmartConnect_init 0 (PStr ''key''), TOTP_now (PStr ''JBSWY3DPEHPK3PXP''),
        GenerateSession 0 (PStr ''A100'') (PStr ''1234'') (PStr ''492039''), Holding 0]"
    by (simp add: fresh fields)
  from run [THEN conjunct2, THEN conjunct1, rule_format, OF cooperates [OF state(1)]]
  obtain c where c: "data_method Get_order_book c"
      "instance_of c = Some (next_obj ?after)" and
    calls1: "calls (snd (invoke mock_sdk mock_config Get_order_book ?after)) = calls ?after @
       [SmartConnect_init (next_obj ?after) (api_key mock_config), TOTP_now (token mock_config),
        GenerateSession (next_obj ?after) (username mock_config) (pwd mock_config) (PStr ''492039''), c]"
    by blast
  from c have "c = OrderBook (next_obj ?after)" by (rule data_method_Get_order_book)
  with calls1 trace0 have trace: "calls (snd (invoke mock_sdk mock_config Get_order_book ?after)) =
       [SmartConnect_init 0 (PStr ''key''), TOTP_now (PStr ''JBSWY3DPEHPK3PXP''),
        GenerateSession 0 (PStr ''A100'') (PStr ''1234'') (PStr ''492039''), Holding 0,
        SmartConnect_init 1 (PStr ''key''), TOTP_now (PStr ''JBSWY3DPEHPK3PXP''),
        GenerateSession 1 (PStr ''A100'') (PStr ''1234'') (PStr ''492039''), OrderBook 1]"
    by (simp add: state fields)
  have same: "same_world ?after ?t"
    by (simp add: same_world_def state)
  from run have "history_free (invoke mock_sdk mock_config Get_order_book)"
    by simp
  with same have result: "fst (invoke mock_sdk mock_config Get_order_book ?after) =
      fst (invoke mock_sdk mock_config Get_order_book ?t)"
    unfolding history_free_def by blast
  from run have counter: "next_obj (snd (invoke mock_sdk mock_config Get_order_book ?after)) = 2"
    by (simp add: state)
  from same result counter trace0 trace show ?thesis by blast
qed

section \<open>Missing configuration\<close>

subsection \<open>The configuration a run depends on\<close>










end
